theory Spec2Isabelle
  imports Complex_Main "HOL-Library.List_Lexorder"
begin

section \<open>JavaScript values and strings\<close>

text \<open>
  A JavaScript property is either absent (\<open>undefined\<close>), \<open>null\<close>, or holds a value.
  The source distinguishes the first two: a destructuring default and the test
  \<open>x !== undefined\<close> react to \<open>undefined\<close> only, whereas the database driver binds both
  as SQL NULL.
\<close>

datatype 'a js = Undefined | Null | Val 'a

text \<open>A destructuring default \<open>{ x = d } = obj\<close> replaces \<open>undefined\<close> only.\<close>

fun dflt :: "'a js \<Rightarrow> 'a js \<Rightarrow> 'a js" where
  "dflt d Undefined = d"
| "dflt d v = v"

text \<open>The driver binds \<open>undefined\<close> and \<open>null\<close> as NULL.\<close>

fun sql_param :: "'a js \<Rightarrow> 'a option" where
  "sql_param (Val v) = Some v"
| "sql_param _ = None"




text \<open>
  The lower case that the database takes for \<open>ILIKE\<close>, on the ASCII letters.
\<close>

definition lower_char :: "char \<Rightarrow> char" where
  "lower_char c =
     (case map_of (zip ''ABCDEFGHIJKLMNOPQRSTUVWXYZ'' ''abcdefghijklmnopqrstuvwxyz'') c of
        Some l \<Rightarrow> l
      | None \<Rightarrow> c)"

definition toLowerCase :: "string \<Rightarrow> string" where
  "toLowerCase s = map lower_char s"

text \<open>
  \<open>s.split(sep)\<close> for a one-character separator: empty pieces are kept, and the
  result is never empty.
\<close>

fun js_split :: "char \<Rightarrow> string \<Rightarrow> string list" where
  "js_split sep [] = [[]]"
| "js_split sep (c # cs) =
     (if c = sep then [] # js_split sep cs
      else (case js_split sep cs of [] \<Rightarrow> [[c]] | p # ps \<Rightarrow> (c # p) # ps))"


section \<open>The users table and \<open>AuthModel\<close>\<close>

text \<open>
  The columns of \<open>users\<close>. The names \<open>name\<close>, \<open>email\<close>, \<open>created_at\<close> and
  \<open>updated_at\<close> are taken by other records of the program, so the columns carry
  the prefix \<open>u_\<close>. Timestamps are natural numbers.
\<close>

record user_row =
  user_id :: int
  u_name :: string
  u_email :: string
  password_hash :: string
  u_created_at :: nat
  u_updated_at :: nat
  is_enabled :: bool

text \<open>
  \<open>AuthModel.findByEmail\<close>:
  \<open>SELECT ... FROM users WHERE email = $1 AND is_enabled = true LIMIT 1\<close>, then
  \<open>results.length > 0 ? results[0] : null\<close>.
\<close>

definition AuthModel_findByEmail :: "user_row list \<Rightarrow> string \<Rightarrow> user_row option" where
  "AuthModel_findByEmail us e =
     (case filter (\<lambda>u. u_email u = e \<and> is_enabled u) us of
        [] \<Rightarrow> None
      | u # _ \<Rightarrow> Some u)"

text \<open>
  \<open>AuthModel.emailExists\<close>:
  \<open>SELECT COUNT(*) as count FROM users WHERE email = $1\<close>, then
  \<open>parseInt(results[0].count) > 0\<close>.
\<close>

definition AuthModel_emailExists :: "user_row list \<Rightarrow> string \<Rightarrow> bool" where
  "AuthModel_emailExists us e = (length (filter (\<lambda>u. u_email u = e) us) > 0)"


section \<open>The authentication middleware\<close>

text \<open>The claims a token carries, and the object attached as \<open>req.user\<close>.\<close>

record claims =
  userId :: int
  email :: string
  name :: string

text \<open>
  \<open>jwt.verify\<close> belongs to the \<open>jsonwebtoken\<close> library: it returns the decoded
  payload or throws an error whose \<open>name\<close> is one of the following. The middleware
  takes it, with the secret already applied, as a parameter.
\<close>

datatype jwt_error = JsonWebTokenError | TokenExpiredError | NotBeforeError

type_synonym jwt_verify = "string \<Rightarrow> jwt_error + claims"

text \<open>
  The errors with which the database rejects a statement of this program, and the
  errors that reach the error handler of the application.
\<close>

datatype db_error =
    InvalidEnumValue
  | NotNullViolation
  | StringTooLong
  | ForeignKeyViolation
  | UniqueViolation
  | InvalidInteger
  | NumericOutOfRange
  | NegativeLimit
  | NegativeOffset

datatype app_error =
    UnauthorizedError string
  | JwtError jwt_error
  | ConflictError
  | DbError db_error
  | TypeError

text \<open>What a middleware hands to Express: \<open>next()\<close> or \<open>next(error)\<close>.\<close>

datatype next_call = Next | NextErr app_error

text \<open>The parts of a request the middleware reads and writes.\<close>

record auth_request =
  authorization :: "string option"
  user :: "claims js"

text \<open>
  \<open>authenticate\<close>. The \<open>try\<close> block throws one of two \<open>UnauthorizedError\<close>s itself
  or lets the error of \<open>jwt.verify\<close> escape; the \<open>catch\<close> block rewrites the two
  library errors it knows by name and passes every other error on unchanged.
  \<open>!authHeader\<close> holds for a missing header and for the empty string.
\<close>

definition authenticate ::
  "jwt_verify \<Rightarrow> 'a auth_request_scheme \<Rightarrow> 'a auth_request_scheme \<times> next_call" where
  "authenticate verify req =
     (case authorization req of
        None \<Rightarrow> (req, NextErr (UnauthorizedError ''No authorization token provided''))
      | Some authHeader \<Rightarrow>
          if authHeader = [] then
            (req, NextErr (UnauthorizedError ''No authorization token provided''))
          else
            let parts = js_split (CHR '' '') authHeader in
            if length parts \<noteq> 2 \<or> parts ! 0 \<noteq> ''Bearer'' then
              (req, NextErr (UnauthorizedError
                 ''Invalid authorization header format. Use: Bearer <token>''))
            else
              (case verify (parts ! 1) of
                 Inl JsonWebTokenError \<Rightarrow> (req, NextErr (UnauthorizedError ''Invalid token''))
               | Inl TokenExpiredError \<Rightarrow>
                   (req, NextErr (UnauthorizedError ''Token has expired''))
               | Inl e \<Rightarrow> (req, NextErr (JwtError e))
               | Inr decoded \<Rightarrow>
                   (req\<lparr>user := Val \<lparr>userId = userId decoded, email = email decoded,
                                     name = name decoded\<rparr>\<rparr>, Next)))"

text \<open>
  \<open>optionalAuth\<close>: the \<open>catch\<close> block sets \<open>req.user = null\<close> and calls \<open>next()\<close>
  for every error.
\<close>

definition optionalAuth ::
  "jwt_verify \<Rightarrow> 'a auth_request_scheme \<Rightarrow> 'a auth_request_scheme \<times> next_call" where
  "optionalAuth verify req =
     (case authorization req of
        None \<Rightarrow> (req\<lparr>user := Null\<rparr>, Next)
      | Some authHeader \<Rightarrow>
          if authHeader = [] then (req\<lparr>user := Null\<rparr>, Next)
          else
            let parts = js_split (CHR '' '') authHeader in
            if length parts = 2 \<and> parts ! 0 = ''Bearer'' then
              (case verify (parts ! 1) of
                 Inl e \<Rightarrow> (req\<lparr>user := Null\<rparr>, Next)
               | Inr decoded \<Rightarrow>
                   (req\<lparr>user := Val \<lparr>userId = userId decoded, email = email decoded,
                                     name = name decoded\<rparr>\<rparr>, Next))
            else (req\<lparr>user := Null\<rparr>, Next))"

text \<open>
  \<open>router.use(authenticate)\<close> in front of every issue route: Express runs the
  route's handler only when the middleware called \<open>next()\<close>; after \<open>next(error)\<close> it
  skips every handler and goes to the error handler.
\<close>

definition protected_route ::
  "jwt_verify \<Rightarrow> ('a auth_request_scheme \<Rightarrow> 'r) \<Rightarrow> 'a auth_request_scheme \<Rightarrow> app_error + 'r" where
  "protected_route verify handler req =
     (case authenticate verify req of
        (req', Next) \<Rightarrow> Inr (handler req')
      | (req', NextErr e) \<Rightarrow> Inl e)"


section \<open>The issues table\<close>

text \<open>The enum types of the schema and their labels, in declaration order.\<close>

datatype issue_status = Open | In_Progress | Resolved | Closed

datatype issue_priority = P_Low | P_Medium | P_High | P_Critical

datatype issue_severity = S_Minor | S_Major | S_Critical

fun status_label :: "issue_status \<Rightarrow> string" where
  "status_label Open = ''Open''"
| "status_label In_Progress = ''In Progress''"
| "status_label Resolved = ''Resolved''"
| "status_label Closed = ''Closed''"

fun priority_label :: "issue_priority \<Rightarrow> string" where
  "priority_label P_Low = ''Low''"
| "priority_label P_Medium = ''Medium''"
| "priority_label P_High = ''High''"
| "priority_label P_Critical = ''Critical''"

fun severity_label :: "issue_severity \<Rightarrow> string" where
  "severity_label S_Minor = ''Minor''"
| "severity_label S_Major = ''Major''"
| "severity_label S_Critical = ''Critical''"

text \<open>Enum input: a string that is no label of the type is rejected by the database.\<close>

definition parse_status :: "string \<Rightarrow> issue_status option" where
  "parse_status s =
     (if s = ''Open'' then Some Open
      else if s = ''In Progress'' then Some In_Progress
      else if s = ''Resolved'' then Some Resolved
      else if s = ''Closed'' then Some Closed
      else None)"

definition parse_priority :: "string \<Rightarrow> issue_priority option" where
  "parse_priority s =
     (if s = ''Low'' then Some P_Low
      else if s = ''Medium'' then Some P_Medium
      else if s = ''High'' then Some P_High
      else if s = ''Critical'' then Some P_Critical
      else None)"

definition parse_severity :: "string \<Rightarrow> issue_severity option" where
  "parse_severity s =
     (if s = ''Minor'' then Some S_Minor
      else if s = ''Major'' then Some S_Major
      else if s = ''Critical'' then Some S_Critical
      else None)"

text \<open>A bound parameter of enum type: NULL stays NULL, a string is parsed.\<close>

definition enum_in :: "(string \<Rightarrow> 'e option) \<Rightarrow> string option \<Rightarrow> db_error + 'e option" where
  "enum_in parse p =
     (case p of
        None \<Rightarrow> Inr None
      | Some s \<Rightarrow> (case parse s of None \<Rightarrow> Inl InvalidEnumValue | Some e \<Rightarrow> Inr (Some e)))"

text \<open>
  A bound parameter for a column of type \<open>INTEGER\<close> (\<open>issue_id\<close>, \<open>created_by\<close>,
  \<open>assigned_to\<close>): the database rejects a number that does not fit 32 bits.
\<close>

definition bind_integer :: "int \<Rightarrow> db_error option" where
  "bind_integer n =
     (if - (2 ^ 31) \<le> n \<and> n < 2 ^ 31 then None else Some NumericOutOfRange)"

text \<open>\<open>ISSUE_STATUS\<close> of \<open>issueConstants\<close>.\<close>

definition ISSUE_STATUS_OPEN :: string where "ISSUE_STATUS_OPEN = ''Open''"
definition ISSUE_STATUS_IN_PROGRESS :: string where "ISSUE_STATUS_IN_PROGRESS = ''In Progress''"
definition ISSUE_STATUS_RESOLVED :: string where "ISSUE_STATUS_RESOLVED = ''Resolved''"
definition ISSUE_STATUS_CLOSED :: string where "ISSUE_STATUS_CLOSED = ''Closed''"

text \<open>
  The columns of \<open>issues\<close>. Five of them share their name with a field of the
  request, so they carry the prefix \<open>i_\<close> (the alias \<open>i.\<close> of the queries).
  \<open>title\<close> and \<open>created_by\<close> are NOT NULL; the enum columns and \<open>description\<close>,
  \<open>assigned_to\<close> and \<open>resolved_at\<close> are nullable. The two creation and update
  timestamps are written by every insert.
\<close>

record issue_row =
  issue_id :: int
  i_title :: string
  i_description :: "string option"
  i_status :: "issue_status option"
  i_priority :: "issue_priority option"
  i_severity :: "issue_severity option"
  created_by :: int
  assigned_to :: "int option"
  created_at :: nat
  updated_at :: nat
  resolved_at :: "nat option"

text \<open>
  The store: both tables and the sequences behind \<open>user_id SERIAL\<close> and
  \<open>issue_id SERIAL\<close>.
\<close>

record db =
  users_tbl :: "user_row list"
  users_seq :: int
  issues_tbl :: "issue_row list"
  issues_seq :: int

text \<open>A row as the two SELECTs with the joins return it.\<close>

record joined_row = issue_row +
  creator_name :: "string option"
  creator_email :: "string option"
  assignee_name :: "string option"
  assignee_email :: "string option"

definition find_user :: "user_row list \<Rightarrow> int \<Rightarrow> user_row option" where
  "find_user us uid = find (\<lambda>u. user_id u = uid) us"

definition user_exists :: "user_row list \<Rightarrow> int \<Rightarrow> bool" where
  "user_exists us uid = (find_user us uid \<noteq> None)"

text \<open>
  \<open>LEFT JOIN users creator ON i.created_by = creator.user_id
  LEFT JOIN users assignee ON i.assigned_to = assignee.user_id\<close>;
  \<open>user_id\<close> is the primary key, so each join finds at most one user.
\<close>

definition join_users :: "user_row list \<Rightarrow> issue_row \<Rightarrow> joined_row" where
  "join_users us i =
     \<lparr>issue_id = issue_id i, i_title = i_title i, i_description = i_description i,
      i_status = i_status i, i_priority = i_priority i, i_severity = i_severity i,
      created_by = created_by i, assigned_to = assigned_to i,
      created_at = created_at i, updated_at = updated_at i, resolved_at = resolved_at i,
      creator_name = map_option u_name (find_user us (created_by i)),
      creator_email = map_option u_email (find_user us (created_by i)),
      assignee_name =
        (case assigned_to i of None \<Rightarrow> None | Some a \<Rightarrow> map_option u_name (find_user us a)),
      assignee_email =
        (case assigned_to i of None \<Rightarrow> None | Some a \<Rightarrow> map_option u_email (find_user us a))\<rparr>"


section \<open>\<open>IssueModel\<close>: single-row operations\<close>

text \<open>
  The fields of the \<open>issueData\<close> argument, and those of \<open>req.body\<close>: the same
  names, \<open>createdBy\<close> among them, and \<open>created_by\<close> for what else a client may
  send.
\<close>

record issueData =
  title :: "string js"
  description :: "string js"
  status :: "string js"
  priority :: "string js"
  severity :: "string js"
  assignedTo :: "int js"
  createdBy :: "int js"

record req_body = issueData +
  body_created_by :: "int js"

text \<open>
  \<open>IssueModel.getIssueById\<close>: \<open>WHERE i.issue_id = $1 LIMIT 1\<close>, then
  \<open>results.length > 0 ? results[0] : null\<close>. The query fails when the id does
  not fit the column type, and the function throws.
\<close>

definition IssueModel_getIssueById :: "db \<Rightarrow> int \<Rightarrow> db_error + joined_row option" where
  "IssueModel_getIssueById d issueId =
     (case bind_integer issueId of
        Some e \<Rightarrow> Inl e
      | None \<Rightarrow>
          (case filter (\<lambda>i. issue_id i = issueId) (issues_tbl d) of
             [] \<Rightarrow> Inr None
           | i # _ \<Rightarrow> Inr (Some (join_users (users_tbl d) i))))"

text \<open>
  The INSERT of \<open>createIssue\<close>. Enum and integer parameters are converted when
  they are bound, before the statement runs. Then the row takes the next value of
  the sequence, which must fit \<open>issue_id\<close>, and the NOT NULL, length, primary-key
  and foreign-key constraints are checked; an error there fails the statement,
  but the sequence keeps its step.
  \<open>resolved_at\<close> is not among the inserted columns and has no default.
\<close>

definition sql_insert_issue ::
  "db \<Rightarrow> nat \<Rightarrow> string option \<Rightarrow> string option \<Rightarrow> string option \<Rightarrow> string option \<Rightarrow>
   string option \<Rightarrow> int option \<Rightarrow> int option \<Rightarrow> db \<times> (db_error + int)" where
  "sql_insert_issue d now p_title p_description p_status p_priority p_severity
       p_created_by p_assigned_to =
     (case enum_in parse_status p_status of
        Inl e \<Rightarrow> (d, Inl e)
      | Inr st \<Rightarrow>
     (case enum_in parse_priority p_priority of
        Inl e \<Rightarrow> (d, Inl e)
      | Inr pr \<Rightarrow>
     (case enum_in parse_severity p_severity of
        Inl e \<Rightarrow> (d, Inl e)
      | Inr sv \<Rightarrow>
     (if (case p_created_by of None \<Rightarrow> False | Some c \<Rightarrow> bind_integer c \<noteq> None) \<or>
         (case p_assigned_to of None \<Rightarrow> False | Some a \<Rightarrow> bind_integer a \<noteq> None)
      then (d, Inl NumericOutOfRange) else
     (let d1 = d\<lparr>issues_seq := issues_seq d + 1\<rparr> in
     (if bind_integer (issues_seq d) \<noteq> None then (d1, Inl NumericOutOfRange) else
     (case p_title of
        None \<Rightarrow> (d1, Inl NotNullViolation)
      | Some t \<Rightarrow>
     (if length t > 255 then (d1, Inl StringTooLong) else
     (case p_created_by of
        None \<Rightarrow> (d1, Inl NotNullViolation)
      | Some c \<Rightarrow>
     (if \<exists>r \<in> set (issues_tbl d). issue_id r = issues_seq d then (d1, Inl UniqueViolation)
      else if \<not> user_exists (users_tbl d) c then (d1, Inl ForeignKeyViolation)
      else if (case p_assigned_to of None \<Rightarrow> False | Some a \<Rightarrow> \<not> user_exists (users_tbl d) a)
      then (d1, Inl ForeignKeyViolation)
      else
        (d1\<lparr>issues_tbl := issues_tbl d @
                 [\<lparr>issue_id = issues_seq d, i_title = t, i_description = p_description,
                   i_status = st, i_priority = pr, i_severity = sv,
                   created_by = c, assigned_to = p_assigned_to,
                   created_at = now, updated_at = now, resolved_at = None\<rparr>]\<rparr>,
         Inr (issues_seq d))))))))))))"

text \<open>
  \<open>IssueModel.createIssue\<close>: the destructuring defaults, then the INSERT with
  \<open>RETURNING issue_id\<close>; the result is \<open>insertId\<close>.
\<close>

definition IssueModel_createIssue :: "db \<Rightarrow> nat \<Rightarrow> issueData \<Rightarrow> db \<times> (db_error + int)" where
  "IssueModel_createIssue d now issueData =
     (let title' = title issueData;
          description' = dflt Null (description issueData);
          status' = dflt (Val ISSUE_STATUS_OPEN) (status issueData);
          priority' = dflt (Val ''Medium'') (priority issueData);
          severity' = dflt (Val ''Minor'') (severity issueData);
          createdBy' = createdBy issueData;
          assignedTo' = dflt Null (assignedTo issueData)
      in sql_insert_issue d now (sql_param title') (sql_param description')
           (sql_param status') (sql_param priority') (sql_param severity')
           (sql_param createdBy') (sql_param assignedTo'))"

text \<open>
  The entries of \<open>updateFields\<close>: one assignment of the SET list each, with the
  parameter bound to it.
\<close>

datatype set_clause =
    SetTitle "string option"
  | SetDescription "string option"
  | SetStatus "string option"
  | SetResolvedAtNow
  | SetResolvedAtNull
  | SetPriority "string option"
  | SetSeverity "string option"
  | SetAssignedTo "int option"
  | SetUpdatedAtNow

text \<open>Binding the parameters of a statement converts the enum and integer inputs.\<close>

fun bind_clause :: "set_clause \<Rightarrow> db_error option" where
  "bind_clause (SetStatus p) =
     (case enum_in parse_status p of Inl e \<Rightarrow> Some e | Inr _ \<Rightarrow> None)"
| "bind_clause (SetPriority p) =
     (case enum_in parse_priority p of Inl e \<Rightarrow> Some e | Inr _ \<Rightarrow> None)"
| "bind_clause (SetSeverity p) =
     (case enum_in parse_severity p of Inl e \<Rightarrow> Some e | Inr _ \<Rightarrow> None)"
| "bind_clause (SetAssignedTo p) = (case p of None \<Rightarrow> None | Some a \<Rightarrow> bind_integer a)"
| "bind_clause _ = None"

fun bind_clauses :: "set_clause list \<Rightarrow> db_error option" where
  "bind_clauses [] = None"
| "bind_clauses (c # cs) = (case bind_clause c of Some e \<Rightarrow> Some e | None \<Rightarrow> bind_clauses cs)"

text \<open>One assignment on one row, with the constraints of the assigned column.\<close>

fun apply_clause :: "user_row list \<Rightarrow> nat \<Rightarrow> set_clause \<Rightarrow> issue_row \<Rightarrow> db_error + issue_row" where
  "apply_clause us now (SetTitle p) r =
     (case p of
        None \<Rightarrow> Inl NotNullViolation
      | Some t \<Rightarrow> if length t > 255 then Inl StringTooLong else Inr (r\<lparr>i_title := t\<rparr>))"
| "apply_clause us now (SetDescription p) r = Inr (r\<lparr>i_description := p\<rparr>)"
| "apply_clause us now (SetStatus p) r =
     (case enum_in parse_status p of Inl e \<Rightarrow> Inl e | Inr st \<Rightarrow> Inr (r\<lparr>i_status := st\<rparr>))"
| "apply_clause us now SetResolvedAtNow r = Inr (r\<lparr>resolved_at := Some now\<rparr>)"
| "apply_clause us now SetResolvedAtNull r = Inr (r\<lparr>resolved_at := None\<rparr>)"
| "apply_clause us now (SetPriority p) r =
     (case enum_in parse_priority p of Inl e \<Rightarrow> Inl e | Inr pr \<Rightarrow> Inr (r\<lparr>i_priority := pr\<rparr>))"
| "apply_clause us now (SetSeverity p) r =
     (case enum_in parse_severity p of Inl e \<Rightarrow> Inl e | Inr sv \<Rightarrow> Inr (r\<lparr>i_severity := sv\<rparr>))"
| "apply_clause us now (SetAssignedTo p) r =
     (if (case p of None \<Rightarrow> False | Some a \<Rightarrow> \<not> user_exists us a)
      then Inl ForeignKeyViolation else Inr (r\<lparr>assigned_to := p\<rparr>))"
| "apply_clause us now SetUpdatedAtNow r = Inr (r\<lparr>updated_at := now\<rparr>)"

fun apply_clauses ::
  "user_row list \<Rightarrow> nat \<Rightarrow> set_clause list \<Rightarrow> issue_row \<Rightarrow> db_error + issue_row" where
  "apply_clauses us now [] r = Inr r"
| "apply_clauses us now (c # cs) r =
     (case apply_clause us now c r of Inl e \<Rightarrow> Inl e | Inr r' \<Rightarrow> apply_clauses us now cs r')"

text \<open>
  The trigger \<open>update_issues_updated_at\<close> (\<open>BEFORE UPDATE ... FOR EACH ROW\<close>) runs
  \<open>update_updated_at_column\<close> on every updated row.
\<close>

definition update_updated_at_column :: "nat \<Rightarrow> issue_row \<Rightarrow> issue_row" where
  "update_updated_at_column now r = r\<lparr>updated_at := now\<rparr>"

text \<open>\<open>UPDATE issues SET ... WHERE issue_id = $n\<close> over the rows of the table.\<close>

fun update_rows ::
  "user_row list \<Rightarrow> nat \<Rightarrow> set_clause list \<Rightarrow> int \<Rightarrow> issue_row list \<Rightarrow>
   db_error + issue_row list" where
  "update_rows us now cs issueId [] = Inr []"
| "update_rows us now cs issueId (r # rs) =
     (if issue_id r = issueId then
        (case apply_clauses us now cs r of
           Inl e \<Rightarrow> Inl e
         | Inr r' \<Rightarrow>
             (case update_rows us now cs issueId rs of
                Inl e \<Rightarrow> Inl e
              | Inr rs' \<Rightarrow> Inr (update_updated_at_column now r' # rs')))
      else
        (case update_rows us now cs issueId rs of
           Inl e \<Rightarrow> Inl e
         | Inr rs' \<Rightarrow> Inr (r # rs')))"

text \<open>
  The whole UPDATE with \<open>RETURNING issue_id\<close>: the parameters of the SET list
  and the id are bound, then the rows are updated; the second component is
  \<open>results.length\<close>, the number of rows the WHERE clause selected.
\<close>

definition sql_update_issues ::
  "db \<Rightarrow> nat \<Rightarrow> set_clause list \<Rightarrow> int \<Rightarrow> db_error + (db \<times> nat)" where
  "sql_update_issues d now cs issueId =
     (case bind_clauses cs of
        Some e \<Rightarrow> Inl e
      | None \<Rightarrow>
     (case bind_integer issueId of
        Some e \<Rightarrow> Inl e
      | None \<Rightarrow>
          (case update_rows (users_tbl d) now cs issueId (issues_tbl d) of
             Inl e \<Rightarrow> Inl e
           | Inr rows' \<Rightarrow>
               Inr (d\<lparr>issues_tbl := rows'\<rparr>,
                    length (filter (\<lambda>i. issue_id i = issueId) (issues_tbl d))))))"

text \<open>
  \<open>IssueModel.updateIssue\<close>: \<open>updateFields\<close> is built field by field, in the order
  of the source; when it holds the \<open>updated_at\<close> entry alone, the function returns
  \<open>affectedRows: 0\<close> before any query.
\<close>

definition updateFields_of :: "issueData \<Rightarrow> set_clause list" where
  "updateFields_of issueData =
     (if title issueData \<noteq> Undefined then [SetTitle (sql_param (title issueData))] else []) @
     (if description issueData \<noteq> Undefined
      then [SetDescription (sql_param (description issueData))] else []) @
     (if status issueData \<noteq> Undefined then
        SetStatus (sql_param (status issueData)) #
        (if status issueData = Val ISSUE_STATUS_RESOLVED \<or>
            status issueData = Val ISSUE_STATUS_CLOSED
         then [SetResolvedAtNow] else [])
      else []) @
     (if priority issueData \<noteq> Undefined
      then [SetPriority (sql_param (priority issueData))] else []) @
     (if severity issueData \<noteq> Undefined
      then [SetSeverity (sql_param (severity issueData))] else []) @
     (if assignedTo issueData \<noteq> Undefined
      then [SetAssignedTo (sql_param (assignedTo issueData))] else []) @
     [SetUpdatedAtNow]"

definition IssueModel_updateIssue ::
  "db \<Rightarrow> nat \<Rightarrow> int \<Rightarrow> issueData \<Rightarrow> db_error + (db \<times> nat)" where
  "IssueModel_updateIssue d now issueId issueData =
     (let updateFields = updateFields_of issueData in
      if length updateFields = 1 then Inr (d, 0)
      else sql_update_issues d now updateFields issueId)"

text \<open>
  \<open>IssueModel.updateStatus\<close>: one of two statements, chosen by the status.
\<close>

definition IssueModel_updateStatus ::
  "db \<Rightarrow> nat \<Rightarrow> int \<Rightarrow> string js \<Rightarrow> db_error + (db \<times> nat)" where
  "IssueModel_updateStatus d now issueId status' =
     (if status' = Val ISSUE_STATUS_RESOLVED \<or> status' = Val ISSUE_STATUS_CLOSED then
        sql_update_issues d now
          [SetStatus (sql_param status'), SetResolvedAtNow, SetUpdatedAtNow] issueId
      else
        sql_update_issues d now
          [SetStatus (sql_param status'), SetResolvedAtNull, SetUpdatedAtNow] issueId)"

text \<open>\<open>IssueModel.deleteIssue\<close>: \<open>DELETE FROM issues WHERE issue_id = $1\<close>.\<close>

definition IssueModel_deleteIssue :: "db \<Rightarrow> int \<Rightarrow> db_error + (db \<times> nat)" where
  "IssueModel_deleteIssue d issueId =
     (case bind_integer issueId of
        Some e \<Rightarrow> Inl e
      | None \<Rightarrow>
          Inr (d\<lparr>issues_tbl := filter (\<lambda>i. issue_id i \<noteq> issueId) (issues_tbl d)\<rparr>,
               length (filter (\<lambda>i. issue_id i = issueId) (issues_tbl d))))"


section \<open>\<open>IssueModel\<close>: the list query and the status counts\<close>

text \<open>
  A JavaScript number as far as this program meets one: an integer, \<open>NaN\<close>
  (from \<open>parseInt\<close> or \<open>0 / 0\<close>) or \<open>Infinity\<close> (from a division by zero).
  Integers are exact here; the rounding of doubles beyond \<open>2^53\<close> is not modelled.
\<close>

datatype jsnum = NaN | Infinity | Num int

record options =
  page :: "jsnum js"
  limit :: "jsnum js"
  o_status :: "string js"
  o_priority :: "string js"
  o_severity :: "string js"
  search :: "string js"
  sortBy :: "string js"
  sortOrder :: "string js"
  o_createdBy :: "int js"





text \<open>
  The operators \<open>LIKE\<close> and \<open>ILIKE\<close> of the database: \<open>%\<close> matches any run of
  characters, \<open>_\<close> any one character, and a backslash takes the next pattern
  character literally. A pattern that ends in a lone backslash is an error in the
  database; \<open>%search%\<close> never does, and the function gives \<open>False\<close> there.
  \<open>ILIKE\<close> compares both sides in lower case.
\<close>

fun like_match :: "string \<Rightarrow> string \<Rightarrow> bool" where
  "like_match [] s = (s = [])"
| "like_match (p # ps) s =
     (if p = CHR ''%'' then
        (like_match ps s \<or> (case s of [] \<Rightarrow> False | c # t \<Rightarrow> like_match (p # ps) t))
      else if p = CHR 0x5C then
        (case ps of
           [] \<Rightarrow> False
         | q # qs \<Rightarrow> (case s of [] \<Rightarrow> False | c # t \<Rightarrow> c = q \<and> like_match qs t))
      else if p = CHR ''_'' then
        (case s of [] \<Rightarrow> False | c # t \<Rightarrow> like_match ps t)
      else
        (case s of [] \<Rightarrow> False | c # t \<Rightarrow> c = p \<and> like_match ps t))"

definition ilike :: "string \<Rightarrow> string \<Rightarrow> bool" where
  "ilike s pat = like_match (toLowerCase pat) (toLowerCase s)"

text \<open>The entries of \<open>conditions\<close>, each with its bound parameter.\<close>

datatype condition =
    CondTrue
  | CondStatus string
  | CondPriority string
  | CondSeverity string
  | CondCreatedBy int
  | CondSearch string

text \<open>
  \<open>if (status)\<close> and its like: \<open>undefined\<close>, \<open>null\<close>, the empty string and the
  number zero are falsy.
\<close>

definition conditions_of :: "options \<Rightarrow> condition list" where
  "conditions_of opts =
     [CondTrue] @
     (case o_status opts of Val s \<Rightarrow> if s \<noteq> [] then [CondStatus s] else [] | _ \<Rightarrow> []) @
     (case o_priority opts of Val s \<Rightarrow> if s \<noteq> [] then [CondPriority s] else [] | _ \<Rightarrow> []) @
     (case o_severity opts of Val s \<Rightarrow> if s \<noteq> [] then [CondSeverity s] else [] | _ \<Rightarrow> []) @
     (case o_createdBy opts of Val n \<Rightarrow> if n \<noteq> 0 then [CondCreatedBy n] else [] | _ \<Rightarrow> []) @
     (case search opts of
        Val s \<Rightarrow> if s \<noteq> [] then [CondSearch (''%'' @ s @ ''%'')] else []
      | _ \<Rightarrow> [])"



text \<open>
  One condition on one row. A comparison with NULL is not true; so a row whose
  enum column is NULL fails an equality on it, and a NULL description does not
  match a pattern.
\<close>

fun eval_condition :: "condition \<Rightarrow> issue_row \<Rightarrow> bool" where
  "eval_condition CondTrue r = True"
| "eval_condition (CondStatus s) r = (parse_status s \<noteq> None \<and> i_status r = parse_status s)"
| "eval_condition (CondPriority s) r =
     (parse_priority s \<noteq> None \<and> i_priority r = parse_priority s)"
| "eval_condition (CondSeverity s) r =
     (parse_severity s \<noteq> None \<and> i_severity r = parse_severity s)"
| "eval_condition (CondCreatedBy n) r = (created_by r = n)"
| "eval_condition (CondSearch pat) r =
     (ilike (i_title r) pat \<or>
      (case i_description r of None \<Rightarrow> False | Some desc \<Rightarrow> ilike desc pat))"

text \<open>\<open>conditions.join(' AND ')\<close> as the WHERE clause.\<close>

definition whereClause :: "condition list \<Rightarrow> issue_row \<Rightarrow> bool" where
  "whereClause conds r = list_all (\<lambda>c. eval_condition c r) conds"















text \<open>
  \<open>IssueModel.getStatusCounts\<close>. The query returns one row for each status that
  occurs, NULL included, with the number of its issues.
\<close>

definition sql_group_by_status :: "db \<Rightarrow> (issue_status option \<times> nat) list" where
  "sql_group_by_status d =
     map (\<lambda>s. (s, length (filter (\<lambda>i. i_status i = s) (issues_tbl d))))
       (remdups (map i_status (issues_tbl d)))"

text \<open>The property key \<open>row.status\<close> gives: the label, or \<open>null\<close> as a string.\<close>

definition status_key :: "issue_status option \<Rightarrow> string" where
  "status_key s = (case s of None \<Rightarrow> ''null'' | Some st \<Rightarrow> status_label st)"

text \<open>
  The body of the \<open>forEach\<close>: \<open>counts[row.status] = parseInt(row.count);
  counts.total += parseInt(row.count)\<close>. \<open>counts\<close> is the object as a map from
  property names; the \<open>total\<close> property is there from the start.
\<close>

definition count_row :: "(string \<rightharpoonup> nat) \<Rightarrow> issue_status option \<times> nat \<Rightarrow> (string \<rightharpoonup> nat)" where
  "count_row counts row =
     (let counts1 = counts(status_key (fst row) \<mapsto> snd row)
      in counts1(''total'' \<mapsto> (case counts1 ''total'' of None \<Rightarrow> 0 | Some t \<Rightarrow> t) + snd row))"

definition IssueModel_getStatusCounts :: "db \<Rightarrow> (string \<rightharpoonup> nat)" where
  "IssueModel_getStatusCounts d =
     foldl count_row
       [''Open'' \<mapsto> 0, ''In Progress'' \<mapsto> 0, ''Resolved'' \<mapsto> 0, ''Closed'' \<mapsto> 0,
        ''total'' \<mapsto> 0]
       (sql_group_by_status d)"


section \<open>\<open>IssueController\<close>\<close>

text \<open>What \<open>formatIssueResponse\<close> returns: the issue as the API shows it.\<close>

record user_ref =
  ref_id :: int
  ref_name :: "string option"
  ref_email :: "string option"

record issue_dto =
  dto_id :: int
  dto_title :: string
  dto_description :: "string option"
  dto_status :: "string option"
  dto_priority :: "string option"
  dto_severity :: "string option"
  dto_createdBy :: user_ref
  dto_assignedTo :: "user_ref option"
  dto_createdAt :: nat
  dto_updatedAt :: nat
  dto_resolvedAt :: "nat option"

text \<open>
  \<open>formatIssueResponse\<close>. The driver hands an enum value over as its label.
  \<open>issue.assigned_to ? {...} : null\<close> is \<open>null\<close> for NULL and for zero.
\<close>

definition formatIssueResponse :: "joined_row \<Rightarrow> issue_dto" where
  "formatIssueResponse issue =
     \<lparr>dto_id = issue_id issue,
      dto_title = i_title issue,
      dto_description = i_description issue,
      dto_status = map_option status_label (i_status issue),
      dto_priority = map_option priority_label (i_priority issue),
      dto_severity = map_option severity_label (i_severity issue),
      dto_createdBy =
        \<lparr>ref_id = created_by issue, ref_name = creator_name issue,
         ref_email = creator_email issue\<rparr>,
      dto_assignedTo =
        (case assigned_to issue of
           None \<Rightarrow> None
         | Some a \<Rightarrow>
             if a = 0 then None
             else Some \<lparr>ref_id = a, ref_name = assignee_name issue,
                        ref_email = assignee_email issue\<rparr>),
      dto_createdAt = created_at issue,
      dto_updatedAt = updated_at issue,
      dto_resolvedAt = resolved_at issue\<rparr>"

text \<open>
  The outcomes of a handler: the helpers of \<open>responseHelper\<close> with the payload
  and message they are given, or \<open>next(error)\<close> from the \<open>catch\<close> block.
\<close>

datatype response =
    notFoundResponse string
  | successResponse "issue_dto option" string
  | createdResponse issue_dto string
  | next_error app_error

text \<open>
  A request on an issue route: \<open>req.params.id\<close> and \<open>req.body\<close> besides the
  identity. The path parameter is the text of an integer, which the database
  converts when it binds it to \<open>issue_id\<close>; the model holds the integer, of any
  size, and the conversion fails for one that does not fit the column
  (\<open>bind_integer\<close>).
\<close>

record request = auth_request +
  params_id :: int
  body :: req_body

text \<open>A template literal prints \<open>undefined\<close> and \<open>null\<close> by name.\<close>

fun template_str :: "string js \<Rightarrow> string" where
  "template_str (Val s) = s"
| "template_str Null = ''null''"
| "template_str Undefined = ''undefined''"

text \<open>
  \<open>IssueController.getIssueById\<close>.
\<close>

definition IssueController_getIssueById :: "db \<Rightarrow> request \<Rightarrow> db \<times> response" where
  "IssueController_getIssueById d req =
     (case IssueModel_getIssueById d (params_id req) of
        Inl e \<Rightarrow> (d, next_error (DbError e))
      | Inr None \<Rightarrow> (d, notFoundResponse ''Issue not found'')
      | Inr (Some issue) \<Rightarrow>
          (d, successResponse (Some (formatIssueResponse issue))
                ''Issue retrieved successfully''))"

text \<open>
  \<open>IssueController.createIssue\<close>. Six fields are read from the body;
  \<open>createdBy\<close> is \<open>req.user.userId\<close>, and reading it from a missing \<open>req.user\<close>
  throws. So does formatting an issue that the second query did not find.
\<close>

definition IssueController_createIssue :: "db \<Rightarrow> nat \<Rightarrow> request \<Rightarrow> db \<times> response" where
  "IssueController_createIssue d now req =
     (case user req of
        Val u \<Rightarrow>
          (case IssueModel_createIssue d now
                  \<lparr>title = title (body req), description = description (body req),
                   status = status (body req), priority = priority (body req),
                   severity = severity (body req), assignedTo = assignedTo (body req),
                   createdBy = Val (userId u)\<rparr> of
             (d', Inl e) \<Rightarrow> (d', next_error (DbError e))
           | (d', Inr insertId) \<Rightarrow>
               (case IssueModel_getIssueById d' insertId of
                  Inl e \<Rightarrow> (d', next_error (DbError e))
                | Inr None \<Rightarrow> (d', next_error TypeError)
                | Inr (Some issue) \<Rightarrow>
                    (d', createdResponse (formatIssueResponse issue)
                           ''Issue created successfully'')))
      | _ \<Rightarrow> (d, next_error TypeError))"

text \<open>
  \<open>IssueController.updateIssue\<close>: look the issue up, update, look it up again.
\<close>

definition IssueController_updateIssue :: "db \<Rightarrow> nat \<Rightarrow> request \<Rightarrow> db \<times> response" where
  "IssueController_updateIssue d now req =
     (case IssueModel_getIssueById d (params_id req) of
        Inl e \<Rightarrow> (d, next_error (DbError e))
      | Inr None \<Rightarrow> (d, notFoundResponse ''Issue not found'')
      | Inr (Some existingIssue) \<Rightarrow>
          (case IssueModel_updateIssue d now (params_id req)
                  \<lparr>title = title (body req), description = description (body req),
                   status = status (body req), priority = priority (body req),
                   severity = severity (body req), assignedTo = assignedTo (body req),
                   createdBy = Undefined\<rparr> of
             Inl e \<Rightarrow> (d, next_error (DbError e))
           | Inr (d', affectedRows) \<Rightarrow>
               (case IssueModel_getIssueById d' (params_id req) of
                  Inl e \<Rightarrow> (d', next_error (DbError e))
                | Inr None \<Rightarrow> (d', next_error TypeError)
                | Inr (Some updatedIssue) \<Rightarrow>
                    (d', successResponse (Some (formatIssueResponse updatedIssue))
                           ''Issue updated successfully''))))"

text \<open>\<open>IssueController.updateStatus\<close>\<close>

definition IssueController_updateStatus :: "db \<Rightarrow> nat \<Rightarrow> request \<Rightarrow> db \<times> response" where
  "IssueController_updateStatus d now req =
     (case IssueModel_getIssueById d (params_id req) of
        Inl e \<Rightarrow> (d, next_error (DbError e))
      | Inr None \<Rightarrow> (d, notFoundResponse ''Issue not found'')
      | Inr (Some existingIssue) \<Rightarrow>
          (case IssueModel_updateStatus d now (params_id req) (status (body req)) of
             Inl e \<Rightarrow> (d, next_error (DbError e))
           | Inr (d', affectedRows) \<Rightarrow>
               (case IssueModel_getIssueById d' (params_id req) of
                  Inl e \<Rightarrow> (d', next_error (DbError e))
                | Inr None \<Rightarrow> (d', next_error TypeError)
                | Inr (Some updatedIssue) \<Rightarrow>
                    (d', successResponse (Some (formatIssueResponse updatedIssue))
                           (''Issue status updated to '' @ [CHR 0x22] @
                            template_str (status (body req)) @ [CHR 0x22])))))"

text \<open>\<open>IssueController.deleteIssue\<close>\<close>

definition IssueController_deleteIssue :: "db \<Rightarrow> request \<Rightarrow> db \<times> response" where
  "IssueController_deleteIssue d req =
     (case IssueModel_getIssueById d (params_id req) of
        Inl e \<Rightarrow> (d, next_error (DbError e))
      | Inr None \<Rightarrow> (d, notFoundResponse ''Issue not found'')
      | Inr (Some existingIssue) \<Rightarrow>
          (case IssueModel_deleteIssue d (params_id req) of
             Inl e \<Rightarrow> (d, next_error (DbError e))
           | Inr (d', affectedRows) \<Rightarrow>
               (d', successResponse None ''Issue deleted successfully'')))"


section \<open>Registration\<close>

text \<open>
  \<open>AuthModel.createUser\<close>: the INSERT into \<open>users\<close> with the constraints of the
  schema (\<open>name VARCHAR(100)\<close>, \<open>email VARCHAR(255) UNIQUE\<close>,
  \<open>password_hash VARCHAR(255)\<close>, the primary key); \<open>is_enabled\<close> takes its
  default. A failed INSERT leaves the sequence one step further.
\<close>

definition AuthModel_createUser ::
  "db \<Rightarrow> nat \<Rightarrow> string \<Rightarrow> string \<Rightarrow> string \<Rightarrow> db \<times> (db_error + user_row)" where
  "AuthModel_createUser d now name' email' passwordHash =
     (let d1 = d\<lparr>users_seq := users_seq d + 1\<rparr>;
          u = \<lparr>user_id = users_seq d, u_name = name', u_email = email',
               password_hash = passwordHash, u_created_at = now, u_updated_at = now,
               is_enabled = True\<rparr>
      in
      if length name' > 100 \<or> length email' > 255 \<or> length passwordHash > 255
      then (d1, Inl StringTooLong)
      else if \<exists>v \<in> set (users_tbl d). user_id v = users_seq d \<or> u_email v = email'
      then (d1, Inl UniqueViolation)
      else (d1\<lparr>users_tbl := users_tbl d @ [u]\<rparr>, Inr u))"

text \<open>
  Modelled from the spec: the \<open>register\<close> operation of the auth service, whose
  controller is not among the sources. The spec says:
  \<open>register(name, email, password) \<rightarrow> User\<close> fails with \<open>ConflictError\<close> if the email
  already exists, and stores only the irreversible hash of the password. The
  existence check is \<open>AuthModel.emailExists\<close>, the insert \<open>AuthModel.createUser\<close>,
  both from the source; the hash function is a parameter.
\<close>

definition register ::
  "(string \<Rightarrow> string) \<Rightarrow> db \<Rightarrow> nat \<Rightarrow> string \<Rightarrow> string \<Rightarrow> string \<Rightarrow>
   db \<times> (app_error + user_row)" where
  "register hash d now name' email' password =
     (if AuthModel_emailExists (users_tbl d) email' then (d, Inl ConflictError)
      else
        (case AuthModel_createUser d now name' email' (hash password) of
           (d', Inl e) \<Rightarrow> (d', Inl (DbError e))
         | (d', Inr u) \<Rightarrow> (d', Inr u)))"


section \<open>Example data\<close>

text \<open>A verifier that knows one valid token and one expired token.\<close>

definition demo_verify :: jwt_verify where
  "demo_verify tok =
     (if tok = ''good'' then Inr \<lparr>userId = 7, email = ''a@b.c'', name = ''Ann''\<rparr>
      else if tok = ''old'' then Inl TokenExpiredError
      else Inl JsonWebTokenError)"

text \<open>
  A store with two users, one of them disabled, and two issues: a resolved one
  and an open one.
\<close>

definition demo_ann :: user_row where
  "demo_ann =
     \<lparr>user_id = 1, u_name = ''Ann'', u_email = ''a@b.c'', password_hash = ''#1'',
      u_created_at = 1, u_updated_at = 1, is_enabled = True\<rparr>"

definition demo_bob :: user_row where
  "demo_bob =
     \<lparr>user_id = 2, u_name = ''Bob'', u_email = ''bob@b.c'', password_hash = ''#2'',
      u_created_at = 2, u_updated_at = 3, is_enabled = False\<rparr>"

definition demo_users :: "user_row list" where
  "demo_users = [demo_ann, demo_bob]"

definition demo_issue1 :: issue_row where
  "demo_issue1 =
     \<lparr>issue_id = 1, i_title = ''Login fails'', i_description = Some ''cannot log in'',
      i_status = Some Resolved, i_priority = Some P_High, i_severity = Some S_Major,
      created_by = 1, assigned_to = Some 2,
      created_at = 4, updated_at = 5, resolved_at = Some 5\<rparr>"

definition demo_issue2 :: issue_row where
  "demo_issue2 =
     \<lparr>issue_id = 2, i_title = ''Crash on export'', i_description = None,
      i_status = Some Open, i_priority = Some P_Medium, i_severity = Some S_Minor,
      created_by = 1, assigned_to = None,
      created_at = 6, updated_at = 6, resolved_at = None\<rparr>"

definition demo_db :: db where
  "demo_db =
     \<lparr>users_tbl = demo_users, users_seq = 3,
      issues_tbl = [demo_issue1, demo_issue2], issues_seq = 3\<rparr>"

text \<open>
  Three partial updates: one that only reopens an issue, one that renames and
  closes it, and one that supplies nothing.
\<close>

definition demo_nothing :: issueData where
  "demo_nothing =
     \<lparr>title = Undefined, description = Undefined, status = Undefined,
      priority = Undefined, severity = Undefined, assignedTo = Undefined,
      createdBy = Undefined\<rparr>"

definition demo_reopen :: issueData where
  "demo_reopen = demo_nothing\<lparr>status := Val ''Open''\<rparr>"

definition demo_patch :: issueData where
  "demo_patch = demo_nothing\<lparr>title := Val ''Crash on CSV export'', status := Val ''Closed''\<rparr>"

text \<open>Requests of Ann on an issue route: a body that closes the issue, and one for a new issue
  in which the client also claims another creator.\<close>

definition demo_close_body :: req_body where
  "demo_close_body =
     \<lparr>title = Undefined, description = Undefined, status = Val ''Closed'',
      priority = Undefined, severity = Undefined, assignedTo = Undefined,
      createdBy = Undefined, body_created_by = Undefined\<rparr>"

definition demo_new_body :: req_body where
  "demo_new_body =
     \<lparr>title = Val ''Bug A'', description = Undefined, status = Undefined,
      priority = Undefined, severity = Undefined, assignedTo = Undefined,
      createdBy = Undefined, body_created_by = Undefined\<rparr>"

definition demo_req :: "int \<Rightarrow> req_body \<Rightarrow> request" where
  "demo_req i b =
     \<lparr>authorization = Some ''Bearer good'',
      user = Val \<lparr>userId = 1, email = ''a@b.c'', name = ''Ann''\<rparr>,
      params_id = i, body = b\<rparr>"





section \<open>Strings\<close>

lemma js_split_not_Nil: "js_split sep s \<noteq> []"
  by (cases s) (simp_all split: list.split)

lemma js_split_single: "js_split sep s = [a] \<longleftrightarrow> s = a \<and> sep \<notin> set a"
proof (induction s arbitrary: a)
  case Nil
  then show ?case by auto
next
  case (Cons c cs)
  obtain p ps where pps: "js_split sep cs = p # ps"
    using js_split_not_Nil[of sep cs] by (cases "js_split sep cs") auto
  show ?case
  proof (cases "c = sep")
    case True
    then show ?thesis using js_split_not_Nil[of sep cs] by auto
  next
    case False
    show ?thesis
    proof (cases a)
      case Nil
      with False pps show ?thesis by simp
    next
      case (Cons a0 as)
      with False pps Cons.IH[of as] show ?thesis by auto
    qed
  qed
qed


lemma js_split_two:
  "js_split sep s = [a, b] \<longleftrightarrow> s = a @ sep # b \<and> sep \<notin> set a \<and> sep \<notin> set b"
proof (induction s arbitrary: a)
  case Nil
  then show ?case by simp
next
  case (Cons c cs)
  obtain p ps where pps: "js_split sep cs = p # ps"
    using js_split_not_Nil[of sep cs] by (cases "js_split sep cs") auto
  show ?case
  proof (cases "c = sep")
    case True
    show ?thesis
    proof (cases a)
      case Nil
      with True show ?thesis by (simp add: js_split_single)
    next
      case (Cons a0 as)
      with True show ?thesis by simp
    qed
  next
    case False
    show ?thesis
    proof (cases a)
      case Nil
      with False pps show ?thesis by simp
    next
      case (Cons a0 as)
      with False pps Cons.IH[of as] show ?thesis by auto
    qed
  qed
qed

lemma bearer_form:
  "(length (js_split (CHR '' '') h) = 2 \<and> js_split (CHR '' '') h ! 0 = ''Bearer'') \<longleftrightarrow>
   (\<exists>tok. h = ''Bearer '' @ tok \<and> CHR '' '' \<notin> set tok)"
proof
  assume A: "length (js_split (CHR '' '') h) = 2 \<and> js_split (CHR '' '') h ! 0 = ''Bearer''"
  then obtain a b where ab: "js_split (CHR '' '') h = [a, b]"
    by (cases "js_split (CHR '' '') h"; cases "tl (js_split (CHR '' '') h)") auto
  with A have "a = ''Bearer''" by simp
  with ab have "h = ''Bearer'' @ CHR '' '' # b \<and> CHR '' '' \<notin> set b"
    by (simp add: js_split_two)
  then show "\<exists>tok. h = ''Bearer '' @ tok \<and> CHR '' '' \<notin> set tok"
    by simp
next
  assume "\<exists>tok. h = ''Bearer '' @ tok \<and> CHR '' '' \<notin> set tok"
  then obtain tok where h: "h = ''Bearer'' @ CHR '' '' # tok" and t: "CHR '' '' \<notin> set tok"
    by auto
  have "js_split (CHR '' '') (''Bearer'' @ CHR '' '' # tok) = [''Bearer'', tok]"
    unfolding js_split_two using t by simp
  with h show "length (js_split (CHR '' '') h) = 2 \<and> js_split (CHR '' '') h ! 0 = ''Bearer''"
    by simp
qed











section \<open>The authentication middleware rejects before any handler\<close>

lemma authenticate_missing:
  "authorization req = None \<or> authorization req = Some [] \<Longrightarrow>
   authenticate verify req =
     (req, NextErr (UnauthorizedError ''No authorization token provided''))"
  by (auto simp: authenticate_def)

lemma authenticate_malformed:
  assumes "authorization req = Some h" and "h \<noteq> []"
    and "\<not> (\<exists>tok. h = ''Bearer '' @ tok \<and> CHR '' '' \<notin> set tok)"
  shows "authenticate verify req =
     (req, NextErr (UnauthorizedError
        ''Invalid authorization header format. Use: Bearer <token>''))"
proof -
  from assms(3) have "length (js_split (CHR '' '') h) \<noteq> 2 \<or>
      js_split (CHR '' '') h ! 0 \<noteq> ''Bearer''"
    using bearer_form[of h] by blast
  with assms(1,2) show ?thesis
    by (simp add: authenticate_def Let_def)
qed

lemma split_bearer:
  "CHR '' '' \<notin> set tok \<Longrightarrow> js_split (CHR '' '') (''Bearer '' @ tok) = [''Bearer'', tok]"
  using js_split_two[of "CHR '' ''" "''Bearer '' @ tok" "''Bearer''" tok] by simp

lemma authenticate_bearer:
  assumes "authorization req = Some (''Bearer '' @ tok)" and "CHR '' '' \<notin> set tok"
  shows "authenticate verify req =
     (case verify tok of
        Inl JsonWebTokenError \<Rightarrow> (req, NextErr (UnauthorizedError ''Invalid token''))
      | Inl TokenExpiredError \<Rightarrow> (req, NextErr (UnauthorizedError ''Token has expired''))
      | Inl e \<Rightarrow> (req, NextErr (JwtError e))
      | Inr decoded \<Rightarrow>
          (req\<lparr>user := Val \<lparr>userId = userId decoded, email = email decoded,
                            name = name decoded\<rparr>\<rparr>, Next))"
  using assms split_bearer[OF assms(2)]
  by (simp add: authenticate_def Let_def)

text \<open>
  Claim C7. On a protected route, \<open>authenticate\<close> hands an \<open>UnauthorizedError\<close> to
  Express, so that no handler runs, in each of four cases: the Authorization
  header is missing (or empty); the header is not \<open>Bearer\<close>, one space and a token
  without spaces; the library rejects the token as invalid; the library rejects it
  as expired. The four messages are pairwise different. For a token that verifies,
  the handler runs on the request with \<open>userId\<close>, \<open>email\<close> and \<open>name\<close> of the claims
  attached as \<open>req.user\<close>.
\<close>

theorem authenticate_rejects_before_handler:
  "(authorization req = None \<or> authorization req = Some [] \<longrightarrow>
      protected_route verify handler req =
        Inl (UnauthorizedError ''No authorization token provided'')) \<and>
   (\<forall>h. authorization req = Some h \<and> h \<noteq> [] \<and>
        \<not> (\<exists>tok. h = ''Bearer '' @ tok \<and> CHR '' '' \<notin> set tok) \<longrightarrow>
      protected_route verify handler req =
        Inl (UnauthorizedError
               ''Invalid authorization header format. Use: Bearer <token>'')) \<and>
   (\<forall>tok. authorization req = Some (''Bearer '' @ tok) \<and> CHR '' '' \<notin> set tok \<longrightarrow>
      (verify tok = Inl JsonWebTokenError \<longrightarrow>
         protected_route verify handler req = Inl (UnauthorizedError ''Invalid token'')) \<and>
      (verify tok = Inl TokenExpiredError \<longrightarrow>
         protected_route verify handler req = Inl (UnauthorizedError ''Token has expired'')) \<and>
      (\<forall>c. verify tok = Inr c \<longrightarrow>
         protected_route verify handler req =
           Inr (handler (req\<lparr>user := Val \<lparr>userId = userId c, email = email c,
                                            name = name c\<rparr>\<rparr>)))) \<and>
   distinct [''No authorization token provided'',
             ''Invalid authorization header format. Use: Bearer <token>'',
             ''Invalid token'', ''Token has expired'']"
proof (intro conjI allI impI)
  assume "authorization req = None \<or> authorization req = Some []"
  then show "protected_route verify handler req =
      Inl (UnauthorizedError ''No authorization token provided'')"
    by (simp add: protected_route_def authenticate_missing)
next
  fix h
  assume "authorization req = Some h \<and> h \<noteq> [] \<and>
      \<not> (\<exists>tok. h = ''Bearer '' @ tok \<and> CHR '' '' \<notin> set tok)"
  then show "protected_route verify handler req =
      Inl (UnauthorizedError ''Invalid authorization header format. Use: Bearer <token>'')"
    by (simp add: protected_route_def authenticate_malformed)
next
  fix tok
  assume A: "authorization req = Some (''Bearer '' @ tok) \<and> CHR '' '' \<notin> set tok"
    and V: "verify tok = Inl JsonWebTokenError"
  from A have "authorization req = Some (''Bearer '' @ tok)" "CHR '' '' \<notin> set tok" by auto
  from authenticate_bearer[OF this, of verify] V
  show "protected_route verify handler req = Inl (UnauthorizedError ''Invalid token'')"
    by (simp add: protected_route_def)
next
  fix tok
  assume A: "authorization req = Some (''Bearer '' @ tok) \<and> CHR '' '' \<notin> set tok"
    and V: "verify tok = Inl TokenExpiredError"
  from A have "authorization req = Some (''Bearer '' @ tok)" "CHR '' '' \<notin> set tok" by auto
  from authenticate_bearer[OF this, of verify] V
  show "protected_route verify handler req = Inl (UnauthorizedError ''Token has expired'')"
    by (simp add: protected_route_def)
next
  fix tok c
  assume A: "authorization req = Some (''Bearer '' @ tok) \<and> CHR '' '' \<notin> set tok"
    and V: "verify tok = Inr c"
  from A have "authorization req = Some (''Bearer '' @ tok)" "CHR '' '' \<notin> set tok" by auto
  from authenticate_bearer[OF this, of verify] V
  show "protected_route verify handler req =
      Inr (handler (req\<lparr>user := Val \<lparr>userId = userId c, email = email c, name = name c\<rparr>\<rparr>))"
    by (simp add: protected_route_def)
next
  show "distinct [''No authorization token provided'',
             ''Invalid authorization header format. Use: Bearer <token>'',
             ''Invalid token'', ''Token has expired'']"
    by simp
qed

theorem authenticate_rejects_before_handler_witness:
  "protected_route demo_verify user \<lparr>authorization = None, user = Undefined\<rparr> =
     Inl (UnauthorizedError ''No authorization token provided'') \<and>
   protected_route demo_verify user \<lparr>authorization = Some ''Bearer a b'', user = Undefined\<rparr> =
     Inl (UnauthorizedError ''Invalid authorization header format. Use: Bearer <token>'') \<and>
   protected_route demo_verify user \<lparr>authorization = Some ''Bearer bad'', user = Undefined\<rparr> =
     Inl (UnauthorizedError ''Invalid token'') \<and>
   protected_route demo_verify user \<lparr>authorization = Some ''Bearer old'', user = Undefined\<rparr> =
     Inl (UnauthorizedError ''Token has expired'') \<and>
   protected_route demo_verify user \<lparr>authorization = Some ''Bearer good'', user = Undefined\<rparr> =
     Inr (Val \<lparr>userId = 7, email = ''a@b.c'', name = ''Ann''\<rparr>)"
proof -
  have no_form: "\<not> (\<exists>tok. ''Bearer a b'' = ''Bearer '' @ tok \<and> CHR '' '' \<notin> set tok)"
    by auto
  show ?thesis
    using authenticate_rejects_before_handler
            [of "\<lparr>authorization = None, user = Undefined\<rparr>" demo_verify user]
          authenticate_rejects_before_handler
            [of "\<lparr>authorization = Some ''Bearer a b'', user = Undefined\<rparr>" demo_verify user]
          authenticate_rejects_before_handler
            [of "\<lparr>authorization = Some ''Bearer bad'', user = Undefined\<rparr>" demo_verify user]
          authenticate_rejects_before_handler
            [of "\<lparr>authorization = Some ''Bearer old'', user = Undefined\<rparr>" demo_verify user]
          authenticate_rejects_before_handler
            [of "\<lparr>authorization = Some ''Bearer good'', user = Undefined\<rparr>" demo_verify user]
    by (simp add: demo_verify_def)
qed


section \<open>The optional middleware lets every request through\<close>

lemma optionalAuth_bearer:
  assumes "authorization req = Some (''Bearer '' @ tok)" and "CHR '' '' \<notin> set tok"
  shows "optionalAuth verify req =
     (case verify tok of
        Inl e \<Rightarrow> (req\<lparr>user := Null\<rparr>, Next)
      | Inr decoded \<Rightarrow>
          (req\<lparr>user := Val \<lparr>userId = userId decoded, email = email decoded,
                            name = name decoded\<rparr>\<rparr>, Next))"
  using assms split_bearer[OF assms(2)]
  by (simp add: optionalAuth_def Let_def)

lemma optionalAuth_other:
  assumes "\<not> (\<exists>tok. authorization req = Some (''Bearer '' @ tok) \<and> CHR '' '' \<notin> set tok)"
  shows "optionalAuth verify req = (req\<lparr>user := Null\<rparr>, Next)"
proof (cases "authorization req")
  case None
  then show ?thesis by (simp add: optionalAuth_def)
next
  case (Some h)
  with assms have "\<not> (\<exists>tok. h = ''Bearer '' @ tok \<and> CHR '' '' \<notin> set tok)" by simp
  then have "\<not> (length (js_split (CHR '' '') h) = 2 \<and> js_split (CHR '' '') h ! 0 = ''Bearer'')"
    using bearer_form[of h] by blast
  with Some show ?thesis by (auto simp: optionalAuth_def Let_def)
qed

text \<open>
  Claim C10. \<open>optionalAuth\<close> always calls \<open>next()\<close> without an error. It attaches
  \<open>userId\<close>, \<open>email\<close> and \<open>name\<close> exactly when the header is \<open>Bearer\<close>, one space and
  a token without spaces that verifies; for a missing or malformed header and for
  a token that the library rejects (invalid, expired, or anything else) it sets
  \<open>req.user\<close> to \<open>null\<close>.
\<close>

theorem optionalAuth_never_rejects:
  "snd (optionalAuth verify req) = Next \<and>
   (\<forall>tok c. authorization req = Some (''Bearer '' @ tok) \<and> CHR '' '' \<notin> set tok \<and>
        verify tok = Inr c \<longrightarrow>
      fst (optionalAuth verify req) =
        req\<lparr>user := Val \<lparr>userId = userId c, email = email c, name = name c\<rparr>\<rparr>) \<and>
   (\<not> (\<exists>tok c. authorization req = Some (''Bearer '' @ tok) \<and> CHR '' '' \<notin> set tok \<and>
        verify tok = Inr c) \<longrightarrow>
      fst (optionalAuth verify req) = req\<lparr>user := Null\<rparr>)"
proof (intro conjI allI impI)
  show "snd (optionalAuth verify req) = Next"
  proof (cases "\<exists>tok. authorization req = Some (''Bearer '' @ tok) \<and> CHR '' '' \<notin> set tok")
    case True
    then obtain tok where "authorization req = Some (''Bearer '' @ tok)" "CHR '' '' \<notin> set tok"
      by blast
    from optionalAuth_bearer[OF this, of verify] show ?thesis
      by (simp split: sum.split)
  next
    case False
    from optionalAuth_other[OF this, of verify] show ?thesis by simp
  qed
next
  fix tok c
  assume A: "authorization req = Some (''Bearer '' @ tok) \<and> CHR '' '' \<notin> set tok \<and>
      verify tok = Inr c"
  then have "authorization req = Some (''Bearer '' @ tok)" "CHR '' '' \<notin> set tok" by auto
  from optionalAuth_bearer[OF this, of verify] A
  show "fst (optionalAuth verify req) =
      req\<lparr>user := Val \<lparr>userId = userId c, email = email c, name = name c\<rparr>\<rparr>"
    by simp
next
  assume N: "\<not> (\<exists>tok c. authorization req = Some (''Bearer '' @ tok) \<and>
      CHR '' '' \<notin> set tok \<and> verify tok = Inr c)"
  show "fst (optionalAuth verify req) = req\<lparr>user := Null\<rparr>"
  proof (cases "\<exists>tok. authorization req = Some (''Bearer '' @ tok) \<and> CHR '' '' \<notin> set tok")
    case True
    then obtain tok where t: "authorization req = Some (''Bearer '' @ tok)"
      "CHR '' '' \<notin> set tok" by blast
    with N have "\<exists>e. verify tok = Inl e" by (cases "verify tok") auto
    with optionalAuth_bearer[OF t, of verify] show ?thesis by auto
  next
    case False
    from optionalAuth_other[OF this, of verify] show ?thesis by simp
  qed
qed

theorem optionalAuth_never_rejects_witness:
  "optionalAuth demo_verify \<lparr>authorization = Some ''Bearer good'', user = Undefined\<rparr> =
     (\<lparr>authorization = Some ''Bearer good'',
       user = Val \<lparr>userId = 7, email = ''a@b.c'', name = ''Ann''\<rparr>\<rparr>, Next) \<and>
   optionalAuth demo_verify \<lparr>authorization = Some ''Bearer old'', user = Undefined\<rparr> =
     (\<lparr>authorization = Some ''Bearer old'', user = Null\<rparr>, Next) \<and>
   optionalAuth demo_verify \<lparr>authorization = Some ''Basic xyz'', user = Undefined\<rparr> =
     (\<lparr>authorization = Some ''Basic xyz'', user = Null\<rparr>, Next) \<and>
   optionalAuth demo_verify \<lparr>authorization = None, user = Undefined\<rparr> =
     (\<lparr>authorization = None, user = Null\<rparr>, Next)"
proof -
  have g: "demo_verify ''good'' = Inr \<lparr>userId = 7, email = ''a@b.c'', name = ''Ann''\<rparr>"
    by (simp add: demo_verify_def)
  have o: "\<not> (\<exists>tok c. Some ''Bearer old'' = Some (''Bearer '' @ tok) \<and>
      CHR '' '' \<notin> set tok \<and> demo_verify tok = Inr c)"
    by (auto simp: demo_verify_def)
  have b: "\<not> (\<exists>tok c. Some ''Basic xyz'' = Some (''Bearer '' @ tok) \<and>
      CHR '' '' \<notin> set tok \<and> demo_verify tok = Inr c)"
    by auto
  show ?thesis
    using optionalAuth_never_rejects
            [of demo_verify "\<lparr>authorization = Some ''Bearer good'', user = Undefined\<rparr>"] g
          optionalAuth_never_rejects
            [of demo_verify "\<lparr>authorization = Some ''Bearer old'', user = Undefined\<rparr>"] o
          optionalAuth_never_rejects
            [of demo_verify "\<lparr>authorization = Some ''Basic xyz'', user = Undefined\<rparr>"] b
          optionalAuth_never_rejects
            [of demo_verify "\<lparr>authorization = None, user = Undefined\<rparr>"]
    by (simp add: prod_eq_iff)
qed


section \<open>Registration and the two email lookups\<close>

text \<open>
  Claim C8. \<open>emailExists\<close> is true exactly when some row of \<open>users\<close>, enabled or
  not, has the email, and then \<open>register\<close> fails with \<open>ConflictError\<close> and leaves the
  store as it was; \<open>findByEmail\<close> returns a user only among the enabled users with
  that email, and \<open>null\<close> exactly when there is none.
\<close>

theorem register_conflict_for_any_user_with_email:
  "(AuthModel_emailExists (users_tbl d) e \<longleftrightarrow> (\<exists>u \<in> set (users_tbl d). u_email u = e)) \<and>
   ((\<exists>u \<in> set (users_tbl d). u_email u = e) \<longrightarrow>
      register hash d now n e pw = (d, Inl ConflictError)) \<and>
   (\<forall>u. AuthModel_findByEmail (users_tbl d) e = Some u \<longrightarrow>
      u \<in> set (users_tbl d) \<and> u_email u = e \<and> is_enabled u) \<and>
   (AuthModel_findByEmail (users_tbl d) e = None \<longleftrightarrow>
      \<not> (\<exists>u \<in> set (users_tbl d). u_email u = e \<and> is_enabled u))"
proof -
  have ex: "AuthModel_emailExists us e \<longleftrightarrow> (\<exists>u \<in> set us. u_email u = e)" for us
    by (simp add: AuthModel_emailExists_def filter_empty_conv)
  have some: "u \<in> set us \<and> u_email u = e \<and> is_enabled u"
    if "AuthModel_findByEmail us e = Some u" for us u
  proof -
    from that obtain rest where "filter (\<lambda>u. u_email u = e \<and> is_enabled u) us = u # rest"
      by (auto simp: AuthModel_findByEmail_def split: list.splits)
    then have "u \<in> set (filter (\<lambda>u. u_email u = e \<and> is_enabled u) us)" by simp
    then show ?thesis by simp
  qed
  have none: "AuthModel_findByEmail us e = None \<longleftrightarrow>
      \<not> (\<exists>u \<in> set us. u_email u = e \<and> is_enabled u)" for us
  proof -
    have "AuthModel_findByEmail us e = None \<longleftrightarrow>
        filter (\<lambda>u. u_email u = e \<and> is_enabled u) us = []"
      by (simp add: AuthModel_findByEmail_def split: list.splits)
    then show ?thesis by (simp add: filter_empty_conv)
  qed
  show ?thesis
    using ex[of "users_tbl d"] some[of "users_tbl d"] none[of "users_tbl d"]
    by (auto simp: register_def)
qed

text \<open>
  In the example store Bob's account is disabled: his email still blocks a
  registration, and the login lookup does not find him.
\<close>

theorem register_conflict_for_any_user_with_email_witness:
  "(\<exists>u \<in> set (users_tbl demo_db). u_email u = ''bob@b.c'') \<and>
   AuthModel_emailExists (users_tbl demo_db) ''bob@b.c'' \<and>
   register (\<lambda>pw. ''#'' @ pw) demo_db 9 ''Bob'' ''bob@b.c'' ''secret'' =
     (demo_db, Inl ConflictError) \<and>
   AuthModel_findByEmail (users_tbl demo_db) ''bob@b.c'' = None \<and>
   AuthModel_findByEmail (users_tbl demo_db) ''a@b.c'' = Some demo_ann"
proof -
  have h: "\<exists>u \<in> set (users_tbl demo_db). u_email u = ''bob@b.c''"
    by (simp add: demo_db_def demo_users_def demo_bob_def)
  have f: "AuthModel_findByEmail (users_tbl demo_db) ''a@b.c'' = Some demo_ann"
    by (simp add: AuthModel_findByEmail_def demo_db_def demo_users_def demo_ann_def
        demo_bob_def)
  have n: "\<not> (\<exists>u \<in> set (users_tbl demo_db). u_email u = ''bob@b.c'' \<and> is_enabled u)"
    by (simp add: demo_db_def demo_users_def demo_ann_def demo_bob_def)
  show ?thesis
    using h f n
      register_conflict_for_any_user_with_email
        [of demo_db "''bob@b.c''" "\<lambda>pw. ''#'' @ pw" 9 "''Bob''" "''secret''"]
    by simp
qed


section \<open>What an UPDATE does to a row\<close>

lemma enum_in_status:
  "enum_in parse_status p = Inr st \<Longrightarrow> map_option status_label st = p"
  by (cases p) (auto simp: enum_in_def parse_status_def split: if_splits option.splits)

lemma enum_in_priority:
  "enum_in parse_priority p = Inr pr \<Longrightarrow> map_option priority_label pr = p"
  by (cases p) (auto simp: enum_in_def parse_priority_def split: if_splits option.splits)

lemma enum_in_severity:
  "enum_in parse_severity p = Inr sv \<Longrightarrow> map_option severity_label sv = p"
  by (cases p) (auto simp: enum_in_def parse_severity_def split: if_splits option.splits)

lemma apply_clauses_append:
  "apply_clauses us now (xs @ ys) r =
     (case apply_clauses us now xs r of Inl e \<Rightarrow> Inl e | Inr r' \<Rightarrow> apply_clauses us now ys r')"
  by (induction xs arbitrary: r) (auto split: sum.splits)

lemma update_rows_rel:
  assumes "update_rows us now cs issueId rows = Inr rows'"
  shows "list_all2 (\<lambda>r r'. if issue_id r = issueId
                then (\<exists>x. apply_clauses us now cs r = Inr x \<and>
                          r' = update_updated_at_column now x)
                else r' = r) rows rows'"
proof -
  define R where "R = (\<lambda>r r'. if issue_id r = issueId
                then (\<exists>x. apply_clauses us now cs r = Inr x \<and>
                          r' = update_updated_at_column now x)
                else r' = r)"
  have "list_all2 R rows rows'" using assms
  proof (induction rows arbitrary: rows')
    case Nil
    then show ?case by simp
  next
    case (Cons r rs)
    from Cons.prems obtain r0 rs' where
      eq: "rows' = r0 # rs'" and rest: "update_rows us now cs issueId rs = Inr rs'"
      and hd: "R r r0"
      unfolding R_def by (auto split: if_splits sum.splits)
    from Cons.IH[OF rest] hd eq show ?case by simp
  qed
  then show ?thesis unfolding R_def .
qed

lemma updateFields_length:
  "length (updateFields_of data) = 1 \<longleftrightarrow>
   title data = Undefined \<and> description data = Undefined \<and> status data = Undefined \<and>
   priority data = Undefined \<and> severity data = Undefined \<and> assignedTo data = Undefined"
  by (simp add: updateFields_of_def)


lemma apply_clauses_appendE:
  assumes "apply_clauses us now (xs @ ys) r = Inr x"
  obtains r1 where "apply_clauses us now xs r = Inr r1" and "apply_clauses us now ys r1 = Inr x"
  using assms by (auto simp: apply_clauses_append split: sum.splits)

lemma seg_title:
  assumes "apply_clauses us now
      (if title data \<noteq> Undefined then [SetTitle (sql_param (title data))] else []) r = Inr r1"
  shows "issue_id r1 = issue_id r \<and>
     i_description r1 = i_description r \<and>
     i_status r1 = i_status r \<and>
     i_priority r1 = i_priority r \<and>
     i_severity r1 = i_severity r \<and>
     created_by r1 = created_by r \<and>
     assigned_to r1 = assigned_to r \<and>
     created_at r1 = created_at r \<and>
     updated_at r1 = updated_at r \<and>
     resolved_at r1 = resolved_at r \<and>
     (title data = Undefined \<longrightarrow> i_title r1 = i_title r) \<and>
     (title data \<noteq> Undefined \<longrightarrow> title data = Val (i_title r1))"
  using assms by (cases "title data") (auto split: if_splits)

lemma seg_description:
  assumes "apply_clauses us now
      (if description data \<noteq> Undefined
       then [SetDescription (sql_param (description data))] else []) r = Inr r1"
  shows "issue_id r1 = issue_id r \<and>
     i_title r1 = i_title r \<and>
     i_status r1 = i_status r \<and>
     i_priority r1 = i_priority r \<and>
     i_severity r1 = i_severity r \<and>
     created_by r1 = created_by r \<and>
     assigned_to r1 = assigned_to r \<and>
     created_at r1 = created_at r \<and>
     updated_at r1 = updated_at r \<and>
     resolved_at r1 = resolved_at r \<and>
     i_description r1 =
       (if description data = Undefined then i_description r
        else sql_param (description data))"
  using assms by (auto split: if_splits)

lemma seg_status:
  assumes "apply_clauses us now
      (if status data \<noteq> Undefined then
         SetStatus (sql_param (status data)) #
         (if status data = Val ISSUE_STATUS_RESOLVED \<or> status data = Val ISSUE_STATUS_CLOSED
          then [SetResolvedAtNow] else [])
       else []) r = Inr r1"
  shows "issue_id r1 = issue_id r \<and>
     i_title r1 = i_title r \<and>
     i_description r1 = i_description r \<and>
     i_priority r1 = i_priority r \<and>
     i_severity r1 = i_severity r \<and>
     created_by r1 = created_by r \<and>
     assigned_to r1 = assigned_to r \<and>
     created_at r1 = created_at r \<and>
     updated_at r1 = updated_at r \<and>
     (status data = Undefined \<longrightarrow> i_status r1 = i_status r) \<and>
     (status data \<noteq> Undefined \<longrightarrow>
        map_option status_label (i_status r1) = sql_param (status data)) \<and>
     resolved_at r1 =
       (if status data = Val ''Resolved'' \<or> status data = Val ''Closed''
        then Some now else resolved_at r)"
proof (cases "status data = Undefined")
  case True
  with assms show ?thesis by simp
next
  case False
  with assms obtain st where st: "enum_in parse_status (sql_param (status data)) = Inr st"
    by (auto split: sum.splits if_splits)
  with assms False have "r1 = r\<lparr>i_status := st,
                    resolved_at :=
                      (if status data = Val ''Resolved'' \<or> status data = Val ''Closed''
                       then Some now else resolved_at r)\<rparr>"
    by (auto simp: ISSUE_STATUS_RESOLVED_def ISSUE_STATUS_CLOSED_def split: if_splits)
  with False enum_in_status[OF st] show ?thesis by simp
qed

lemma seg_priority:
  assumes "apply_clauses us now
      (if priority data \<noteq> Undefined then [SetPriority (sql_param (priority data))] else [])
      r = Inr r1"
  shows "issue_id r1 = issue_id r \<and>
     i_title r1 = i_title r \<and>
     i_description r1 = i_description r \<and>
     i_status r1 = i_status r \<and>
     i_severity r1 = i_severity r \<and>
     created_by r1 = created_by r \<and>
     assigned_to r1 = assigned_to r \<and>
     created_at r1 = created_at r \<and>
     updated_at r1 = updated_at r \<and>
     resolved_at r1 = resolved_at r \<and>
     (priority data = Undefined \<longrightarrow> i_priority r1 = i_priority r) \<and>
     (priority data \<noteq> Undefined \<longrightarrow>
        map_option priority_label (i_priority r1) = sql_param (priority data))"
proof (cases "priority data = Undefined")
  case True
  with assms show ?thesis by simp
next
  case False
  with assms obtain pr where pr: "enum_in parse_priority (sql_param (priority data)) = Inr pr"
    by (auto split: sum.splits)
  with assms False have "r1 = r\<lparr>i_priority := pr\<rparr>" by auto
  with False enum_in_priority[OF pr] show ?thesis by simp
qed

lemma seg_severity:
  assumes "apply_clauses us now
      (if severity data \<noteq> Undefined then [SetSeverity (sql_param (severity data))] else [])
      r = Inr r1"
  shows "issue_id r1 = issue_id r \<and>
     i_title r1 = i_title r \<and>
     i_description r1 = i_description r \<and>
     i_status r1 = i_status r \<and>
     i_priority r1 = i_priority r \<and>
     created_by r1 = created_by r \<and>
     assigned_to r1 = assigned_to r \<and>
     created_at r1 = created_at r \<and>
     updated_at r1 = updated_at r \<and>
     resolved_at r1 = resolved_at r \<and>
     (severity data = Undefined \<longrightarrow> i_severity r1 = i_severity r) \<and>
     (severity data \<noteq> Undefined \<longrightarrow>
        map_option severity_label (i_severity r1) = sql_param (severity data))"
proof (cases "severity data = Undefined")
  case True
  with assms show ?thesis by simp
next
  case False
  with assms obtain sv where sv: "enum_in parse_severity (sql_param (severity data)) = Inr sv"
    by (auto split: sum.splits)
  with assms False have "r1 = r\<lparr>i_severity := sv\<rparr>" by auto
  with False enum_in_severity[OF sv] show ?thesis by simp
qed

lemma seg_assignedTo:
  assumes "apply_clauses us now
      (if assignedTo data \<noteq> Undefined
       then [SetAssignedTo (sql_param (assignedTo data))] else []) r = Inr r1"
  shows "issue_id r1 = issue_id r \<and>
     i_title r1 = i_title r \<and>
     i_description r1 = i_description r \<and>
     i_status r1 = i_status r \<and>
     i_priority r1 = i_priority r \<and>
     i_severity r1 = i_severity r \<and>
     created_by r1 = created_by r \<and>
     created_at r1 = created_at r \<and>
     updated_at r1 = updated_at r \<and>
     resolved_at r1 = resolved_at r \<and>
     assigned_to r1 =
       (if assignedTo data = Undefined then assigned_to r
        else sql_param (assignedTo data))"
  using assms by (auto split: if_splits)

lemma apply_updateFields:
  assumes "apply_clauses us now (updateFields_of data) r = Inr x"
  shows "issue_id x = issue_id r \<and> created_by x = created_by r \<and>
     created_at x = created_at r \<and> updated_at x = now \<and>
     (title data = Undefined \<longrightarrow> i_title x = i_title r) \<and>
     (title data \<noteq> Undefined \<longrightarrow> title data = Val (i_title x)) \<and>
     i_description x =
       (if description data = Undefined then i_description r
        else sql_param (description data)) \<and>
     (status data = Undefined \<longrightarrow> i_status x = i_status r) \<and>
     (status data \<noteq> Undefined \<longrightarrow>
        map_option status_label (i_status x) = sql_param (status data)) \<and>
     resolved_at x =
       (if status data = Val ''Resolved'' \<or> status data = Val ''Closed''
        then Some now else resolved_at r) \<and>
     (priority data = Undefined \<longrightarrow> i_priority x = i_priority r) \<and>
     (priority data \<noteq> Undefined \<longrightarrow>
        map_option priority_label (i_priority x) = sql_param (priority data)) \<and>
     (severity data = Undefined \<longrightarrow> i_severity x = i_severity r) \<and>
     (severity data \<noteq> Undefined \<longrightarrow>
        map_option severity_label (i_severity x) = sql_param (severity data)) \<and>
     assigned_to x =
       (if assignedTo data = Undefined then assigned_to r
        else sql_param (assignedTo data))"
proof -
  note a = assms[unfolded updateFields_of_def]
  from a obtain r1 where s1: "apply_clauses us now
      (if title data \<noteq> Undefined then [SetTitle (sql_param (title data))] else []) r = Inr r1"
    and t1: "apply_clauses us now
      ((if description data \<noteq> Undefined
       then [SetDescription (sql_param (description data))] else []) @
      (if status data \<noteq> Undefined then
         SetStatus (sql_param (status data)) #
         (if status data = Val ISSUE_STATUS_RESOLVED \<or> status data = Val ISSUE_STATUS_CLOSED
          then [SetResolvedAtNow] else [])
       else []) @
      (if priority data \<noteq> Undefined then [SetPriority (sql_param (priority data))] else []) @
      (if severity data \<noteq> Undefined then [SetSeverity (sql_param (severity data))] else []) @
      (if assignedTo data \<noteq> Undefined
       then [SetAssignedTo (sql_param (assignedTo data))] else []) @
      [SetUpdatedAtNow]) r1 = Inr x"
    by (rule apply_clauses_appendE)
  from t1 obtain r2 where s2: "apply_clauses us now
      (if description data \<noteq> Undefined
       then [SetDescription (sql_param (description data))] else []) r1 = Inr r2"
    and t2: "apply_clauses us now
      ((if status data \<noteq> Undefined then
         SetStatus (sql_param (status data)) #
         (if status data = Val ISSUE_STATUS_RESOLVED \<or> status data = Val ISSUE_STATUS_CLOSED
          then [SetResolvedAtNow] else [])
       else []) @
      (if priority data \<noteq> Undefined then [SetPriority (sql_param (priority data))] else []) @
      (if severity data \<noteq> Undefined then [SetSeverity (sql_param (severity data))] else []) @
      (if assignedTo data \<noteq> Undefined
       then [SetAssignedTo (sql_param (assignedTo data))] else []) @
      [SetUpdatedAtNow]) r2 = Inr x"
    by (rule apply_clauses_appendE)
  from t2 obtain r3 where s3: "apply_clauses us now
      (if status data \<noteq> Undefined then
         SetStatus (sql_param (status data)) #
         (if status data = Val ISSUE_STATUS_RESOLVED \<or> status data = Val ISSUE_STATUS_CLOSED
          then [SetResolvedAtNow] else [])
       else []) r2 = Inr r3"
    and t3: "apply_clauses us now
      ((if priority data \<noteq> Undefined then [SetPriority (sql_param (priority data))] else []) @
      (if severity data \<noteq> Undefined then [SetSeverity (sql_param (severity data))] else []) @
      (if assignedTo data \<noteq> Undefined
       then [SetAssignedTo (sql_param (assignedTo data))] else []) @
      [SetUpdatedAtNow]) r3 = Inr x"
    by (rule apply_clauses_appendE)
  from t3 obtain r4 where s4: "apply_clauses us now
      (if priority data \<noteq> Undefined then [SetPriority (sql_param (priority data))] else []) r3 = Inr r4"
    and t4: "apply_clauses us now
      ((if severity data \<noteq> Undefined then [SetSeverity (sql_param (severity data))] else []) @
      (if assignedTo data \<noteq> Undefined
       then [SetAssignedTo (sql_param (assignedTo data))] else []) @
      [SetUpdatedAtNow]) r4 = Inr x"
    by (rule apply_clauses_appendE)
  from t4 obtain r5 where s5: "apply_clauses us now
      (if severity data \<noteq> Undefined then [SetSeverity (sql_param (severity data))] else []) r4 = Inr r5"
    and t5: "apply_clauses us now
      ((if assignedTo data \<noteq> Undefined
       then [SetAssignedTo (sql_param (assignedTo data))] else []) @
      [SetUpdatedAtNow]) r5 = Inr x"
    by (rule apply_clauses_appendE)
  from t5 obtain r6 where s6: "apply_clauses us now
      (if assignedTo data \<noteq> Undefined
       then [SetAssignedTo (sql_param (assignedTo data))] else []) r5 = Inr r6"
    and t6: "apply_clauses us now [SetUpdatedAtNow] r6 = Inr x"
    by (rule apply_clauses_appendE)
  from t6 have s7: "x = r6\<lparr>updated_at := now\<rparr>" by simp
  note f1 = seg_title[OF s1] and f2 = seg_description[OF s2] and f3 = seg_status[OF s3]
    and f4 = seg_priority[OF s4] and f5 = seg_severity[OF s5] and f6 = seg_assignedTo[OF s6]
  show ?thesis
    unfolding s7 using f1 f2 f3 f4 f5 f6 by simp
qed

lemma sql_update_issues_Inr:
  assumes "sql_update_issues d now cs issueId = Inr (d', n)"
  shows "d' = d\<lparr>issues_tbl := issues_tbl d'\<rparr> \<and>
     n = length (filter (\<lambda>i. issue_id i = issueId) (issues_tbl d)) \<and>
     update_rows (users_tbl d) now cs issueId (issues_tbl d) = Inr (issues_tbl d') \<and>
     bind_integer issueId = None"
  using assms by (auto simp: sql_update_issues_def split: option.splits sum.splits)


text \<open>The example data and the definitions that evaluating an update unfolds.\<close>

lemmas demo_defs = demo_db_def demo_users_def demo_ann_def demo_bob_def demo_issue1_def
  demo_issue2_def demo_nothing_def demo_reopen_def demo_patch_def

lemmas update_defs = IssueModel_updateIssue_def IssueModel_updateStatus_def
  updateFields_of_def sql_update_issues_def update_updated_at_column_def enum_in_def
  parse_status_def parse_priority_def parse_severity_def user_exists_def find_user_def
  bind_integer_def ISSUE_STATUS_OPEN_def ISSUE_STATUS_RESOLVED_def ISSUE_STATUS_CLOSED_def


lemmas controller_defs = IssueController_updateIssue_def IssueController_updateStatus_def
  IssueController_deleteIssue_def IssueController_createIssue_def IssueModel_getIssueById_def
  IssueModel_deleteIssue_def IssueModel_createIssue_def sql_insert_issue_def
  join_users_def formatIssueResponse_def
  demo_close_body_def demo_new_body_def demo_req_def


section \<open>A partial update changes the supplied fields only\<close>

text \<open>
  Claim C4. When \<open>IssueModel.updateIssue\<close> returns: if none of \<open>title\<close>,
  \<open>description\<close>, \<open>status\<close>, \<open>priority\<close>, \<open>severity\<close>, \<open>assignedTo\<close> is supplied,
  the store is the one before and \<open>affectedRows\<close> is 0; otherwise \<open>affectedRows\<close>
  counts the rows with the id, the users and both sequences are untouched, every
  row with another id is unchanged, and in a row with the id each column of a
  field that is \<open>undefined\<close> keeps its value, each column of a supplied field
  holds the supplied value, \<open>updated_at\<close> is the current time, \<open>resolved_at\<close> is the
  current time when the supplied status is Resolved or Closed and keeps its value
  otherwise, and \<open>issue_id\<close>, \<open>created_by\<close> and \<open>created_at\<close> keep theirs.
\<close>

theorem updateIssue_partial_update:
  assumes "IssueModel_updateIssue d now issueId data = Inr (d', n)"
  shows
   "(title data = Undefined \<and> description data = Undefined \<and> status data = Undefined \<and>
     priority data = Undefined \<and> severity data = Undefined \<and> assignedTo data = Undefined
       \<longrightarrow> d' = d \<and> n = 0) \<and>
    (\<not> (title data = Undefined \<and> description data = Undefined \<and> status data = Undefined \<and>
        priority data = Undefined \<and> severity data = Undefined \<and> assignedTo data = Undefined)
       \<longrightarrow> n = length (filter (\<lambda>i. issue_id i = issueId) (issues_tbl d))) \<and>
    users_tbl d' = users_tbl d \<and> users_seq d' = users_seq d \<and> issues_seq d' = issues_seq d \<and>
    list_all2
      (\<lambda>r r'.
         if issue_id r \<noteq> issueId then r' = r
         else
           issue_id r' = issue_id r \<and> created_by r' = created_by r \<and>
           created_at r' = created_at r \<and>
           (\<not> (title data = Undefined \<and> description data = Undefined \<and>
               status data = Undefined \<and> priority data = Undefined \<and>
               severity data = Undefined \<and> assignedTo data = Undefined)
              \<longrightarrow> updated_at r' = now) \<and>
           (title data = Undefined \<longrightarrow> i_title r' = i_title r) \<and>
           (title data \<noteq> Undefined \<longrightarrow> title data = Val (i_title r')) \<and>
           i_description r' =
             (if description data = Undefined then i_description r
              else sql_param (description data)) \<and>
           (status data = Undefined \<longrightarrow> i_status r' = i_status r) \<and>
           (status data \<noteq> Undefined \<longrightarrow>
              map_option status_label (i_status r') = sql_param (status data)) \<and>
           resolved_at r' =
             (if status data = Val ''Resolved'' \<or> status data = Val ''Closed''
              then Some now else resolved_at r) \<and>
           (priority data = Undefined \<longrightarrow> i_priority r' = i_priority r) \<and>
           (priority data \<noteq> Undefined \<longrightarrow>
              map_option priority_label (i_priority r') = sql_param (priority data)) \<and>
           (severity data = Undefined \<longrightarrow> i_severity r' = i_severity r) \<and>
           (severity data \<noteq> Undefined \<longrightarrow>
              map_option severity_label (i_severity r') = sql_param (severity data)) \<and>
           assigned_to r' =
             (if assignedTo data = Undefined then assigned_to r
              else sql_param (assignedTo data)))
      (issues_tbl d) (issues_tbl d')"
proof (cases "length (updateFields_of data) = 1")
  case True
  with assms have dn: "d' = d" "n = 0" by (simp_all add: IssueModel_updateIssue_def)
  from True have u: "title data = Undefined \<and> description data = Undefined \<and>
      status data = Undefined \<and> priority data = Undefined \<and> severity data = Undefined \<and>
      assignedTo data = Undefined"
    using updateFields_length[of data] by blast
  show ?thesis
    unfolding dn using u by (simp add: list_all2_same)
next
  case False
  with assms have q: "sql_update_issues d now (updateFields_of data) issueId = Inr (d', n)"
    by (simp add: IssueModel_updateIssue_def)
  note q' = sql_update_issues_Inr[OF q]
  from False have nu: "\<not> (title data = Undefined \<and> description data = Undefined \<and>
      status data = Undefined \<and> priority data = Undefined \<and> severity data = Undefined \<and>
      assignedTo data = Undefined)"
    using updateFields_length[of data] by blast
  from q' have rel: "list_all2 (\<lambda>r r'. if issue_id r = issueId
                then (\<exists>x. apply_clauses (users_tbl d) now (updateFields_of data) r = Inr x \<and>
                          r' = update_updated_at_column now x)
                else r' = r) (issues_tbl d) (issues_tbl d')"
    by (intro update_rows_rel) simp
  from q' have dd: "d' = d\<lparr>issues_tbl := issues_tbl d'\<rparr>" by simp
  have t1: "users_tbl d' = users_tbl d" by (subst dd) simp
  have t2: "users_seq d' = users_seq d" by (subst dd) simp
  have t3: "issues_seq d' = issues_seq d" by (subst dd) simp
  have rows: "list_all2
      (\<lambda>r r'.
         if issue_id r \<noteq> issueId then r' = r
         else
           issue_id r' = issue_id r \<and> created_by r' = created_by r \<and>
           created_at r' = created_at r \<and>
           (\<not> (title data = Undefined \<and> description data = Undefined \<and>
               status data = Undefined \<and> priority data = Undefined \<and>
               severity data = Undefined \<and> assignedTo data = Undefined)
              \<longrightarrow> updated_at r' = now) \<and>
           (title data = Undefined \<longrightarrow> i_title r' = i_title r) \<and>
           (title data \<noteq> Undefined \<longrightarrow> title data = Val (i_title r')) \<and>
           i_description r' =
             (if description data = Undefined then i_description r
              else sql_param (description data)) \<and>
           (status data = Undefined \<longrightarrow> i_status r' = i_status r) \<and>
           (status data \<noteq> Undefined \<longrightarrow>
              map_option status_label (i_status r') = sql_param (status data)) \<and>
           resolved_at r' =
             (if status data = Val ''Resolved'' \<or> status data = Val ''Closed''
              then Some now else resolved_at r) \<and>
           (priority data = Undefined \<longrightarrow> i_priority r' = i_priority r) \<and>
           (priority data \<noteq> Undefined \<longrightarrow>
              map_option priority_label (i_priority r') = sql_param (priority data)) \<and>
           (severity data = Undefined \<longrightarrow> i_severity r' = i_severity r) \<and>
           (severity data \<noteq> Undefined \<longrightarrow>
              map_option severity_label (i_severity r') = sql_param (severity data)) \<and>
           assigned_to r' =
             (if assignedTo data = Undefined then assigned_to r
              else sql_param (assignedTo data)))
      (issues_tbl d) (issues_tbl d')"
  proof (rule list_all2_mono[OF rel])
    fix r r'
    assume h: "if issue_id r = issueId
        then \<exists>x. apply_clauses (users_tbl d) now (updateFields_of data) r = Inr x \<and>
                  r' = update_updated_at_column now x
        else r' = r"
    show "if issue_id r \<noteq> issueId then r' = r
         else
           issue_id r' = issue_id r \<and> created_by r' = created_by r \<and>
           created_at r' = created_at r \<and>
           (\<not> (title data = Undefined \<and> description data = Undefined \<and>
               status data = Undefined \<and> priority data = Undefined \<and>
               severity data = Undefined \<and> assignedTo data = Undefined)
              \<longrightarrow> updated_at r' = now) \<and>
           (title data = Undefined \<longrightarrow> i_title r' = i_title r) \<and>
           (title data \<noteq> Undefined \<longrightarrow> title data = Val (i_title r')) \<and>
           i_description r' =
             (if description data = Undefined then i_description r
              else sql_param (description data)) \<and>
           (status data = Undefined \<longrightarrow> i_status r' = i_status r) \<and>
           (status data \<noteq> Undefined \<longrightarrow>
              map_option status_label (i_status r') = sql_param (status data)) \<and>
           resolved_at r' =
             (if status data = Val ''Resolved'' \<or> status data = Val ''Closed''
              then Some now else resolved_at r) \<and>
           (priority data = Undefined \<longrightarrow> i_priority r' = i_priority r) \<and>
           (priority data \<noteq> Undefined \<longrightarrow>
              map_option priority_label (i_priority r') = sql_param (priority data)) \<and>
           (severity data = Undefined \<longrightarrow> i_severity r' = i_severity r) \<and>
           (severity data \<noteq> Undefined \<longrightarrow>
              map_option severity_label (i_severity r') = sql_param (severity data)) \<and>
           assigned_to r' =
             (if assignedTo data = Undefined then assigned_to r
              else sql_param (assignedTo data))"
    proof (cases "issue_id r = issueId")
      case False
      with h show ?thesis by simp
    next
      case True
      with h obtain x where x: "apply_clauses (users_tbl d) now (updateFields_of data) r = Inr x"
        and r': "r' = update_updated_at_column now x" by auto
      from apply_updateFields[OF x] nu True show ?thesis
        unfolding r' update_updated_at_column_def by simp
    qed
  qed
  have first: "title data = Undefined \<and> description data = Undefined \<and>
      status data = Undefined \<and> priority data = Undefined \<and> severity data = Undefined \<and>
      assignedTo data = Undefined \<longrightarrow> d' = d \<and> n = 0"
    using nu by blast
  have second: "\<not> (title data = Undefined \<and> description data = Undefined \<and>
      status data = Undefined \<and> priority data = Undefined \<and> severity data = Undefined \<and>
      assignedTo data = Undefined) \<longrightarrow>
      n = length (filter (\<lambda>i. issue_id i = issueId) (issues_tbl d))"
    using q' by simp
  from first second t1 t2 t3 rows show ?thesis by (intro conjI)
qed

text \<open>
  On the example store, renaming and closing issue 2 changes its title, status,
  \<open>resolved_at\<close> and \<open>updated_at\<close> and nothing else; an update that supplies no
  field returns the store as it was.
\<close>

theorem updateIssue_partial_update_witness:
  "IssueModel_updateIssue demo_db 9 2 demo_patch =
     Inr (demo_db\<lparr>issues_tbl :=
            [demo_issue1,
             demo_issue2\<lparr>i_title := ''Crash on CSV export'', i_status := Some Closed,
                          updated_at := 9, resolved_at := Some 9\<rparr>]\<rparr>, 1) \<and>
   (1::nat) = length (filter (\<lambda>i. issue_id i = 2) (issues_tbl demo_db)) \<and>
   IssueModel_updateIssue demo_db 9 2 demo_nothing = Inr (demo_db, 0)"
proof -
  have h: "IssueModel_updateIssue demo_db 9 2 demo_patch =
     Inr (demo_db\<lparr>issues_tbl :=
            [demo_issue1,
             demo_issue2\<lparr>i_title := ''Crash on CSV export'', i_status := Some Closed,
                          updated_at := 9, resolved_at := Some 9\<rparr>]\<rparr>, 1)"
    by (simp add: demo_defs update_defs)
  have p: "\<not> (title demo_patch = Undefined \<and> description demo_patch = Undefined \<and>
      status demo_patch = Undefined \<and> priority demo_patch = Undefined \<and>
      severity demo_patch = Undefined \<and> assignedTo demo_patch = Undefined)"
    by (simp add: demo_defs)
  have h0: "IssueModel_updateIssue demo_db 9 2 demo_nothing = Inr (demo_db, 0)"
    by (simp add: demo_defs update_defs)
  from updateIssue_partial_update[OF h] p updateIssue_partial_update[OF h0] h h0
  show ?thesis by simp
qed


section \<open>Reopening an issue through the full update\<close>

text \<open>
  Claim C1. After a status-changing write, \<open>resolved_at\<close> should be non-null for
  Resolved and Closed and null for every other status. \<open>updateStatus\<close> does that.
  \<open>updateIssue\<close> stamps \<open>resolved_at\<close> for Resolved and Closed, but has no
  assignment that clears it: on the example store issue 1 is Resolved with
  \<open>resolved_at = 5\<close>, and after \<open>updateIssue(1, {status: 'Open'})\<close> it is Open with
  \<open>resolved_at\<close> still 5, whereas \<open>updateStatus(1, 'Open')\<close> leaves it null.
\<close>

theorem updateIssue_reopen_keeps_resolved_at:
  "IssueModel_updateIssue demo_db 9 1 demo_reopen =
     Inr (demo_db\<lparr>issues_tbl :=
            [demo_issue1\<lparr>i_status := Some Open, updated_at := 9\<rparr>, demo_issue2]\<rparr>, 1) \<and>
   i_status (demo_issue1\<lparr>i_status := Some Open, updated_at := 9\<rparr>) = Some Open \<and>
   resolved_at (demo_issue1\<lparr>i_status := Some Open, updated_at := 9\<rparr>) = Some 5 \<and>
   IssueModel_updateStatus demo_db 9 1 (Val ''Open'') =
     Inr (demo_db\<lparr>issues_tbl :=
            [demo_issue1\<lparr>i_status := Some Open, updated_at := 9, resolved_at := None\<rparr>,
             demo_issue2]\<rparr>, 1)"
  by (simp add: demo_defs update_defs)


section \<open>Absent issues: not found, and nothing written\<close>

lemma bind_integer_None: "bind_integer n = None \<longleftrightarrow> - (2 ^ 31) \<le> n \<and> n < 2 ^ 31"
  by (simp add: bind_integer_def)

lemma getIssueById_None:
  assumes "bind_integer i = None"
  shows "IssueModel_getIssueById d i = Inr None \<longleftrightarrow> i \<notin> issue_id ` set (issues_tbl d)"
proof -
  from assms have "IssueModel_getIssueById d i = Inr None \<longleftrightarrow>
      filter (\<lambda>r. issue_id r = i) (issues_tbl d) = []"
    by (simp add: IssueModel_getIssueById_def split: list.splits)
  then show ?thesis by (auto simp: filter_empty_conv)
qed

lemma getIssueById_Some:
  assumes "bind_integer i = None" and "i \<in> issue_id ` set (issues_tbl d)"
  shows "\<exists>x. IssueModel_getIssueById d i = Inr (Some x)"
proof -
  from assms(2) obtain r rest where
    "filter (\<lambda>r. issue_id r = i) (issues_tbl d) = r # rest"
    by (cases "filter (\<lambda>r. issue_id r = i) (issues_tbl d)")
       (auto simp: filter_empty_conv)
  with assms(1) show ?thesis by (simp add: IssueModel_getIssueById_def)
qed

lemma apply_clause_issue_id:
  "apply_clause us now c r = Inr r' \<Longrightarrow> issue_id r' = issue_id r"
  by (cases c) (auto split: option.splits if_splits sum.splits)

lemma apply_clauses_issue_id:
  "apply_clauses us now cs r = Inr r' \<Longrightarrow> issue_id r' = issue_id r"
proof (induction cs arbitrary: r)
  case Nil
  then show ?case by simp
next
  case (Cons c cs)
  then obtain r1 where a: "apply_clause us now c r = Inr r1"
    and b: "apply_clauses us now cs r1 = Inr r'"
    by (auto split: sum.splits)
  from Cons.IH[OF b] apply_clause_issue_id[OF a] show ?case by simp
qed

text \<open>The rows that the WHERE clause selects, before and after the UPDATE.\<close>

lemma update_rows_selected:
  "update_rows us now cs issueId rows = Inr rows' \<Longrightarrow>
   list_all2 (\<lambda>r r'. \<exists>x. apply_clauses us now cs r = Inr x \<and>
                        r' = update_updated_at_column now x)
     (filter (\<lambda>i. issue_id i = issueId) rows)
     (filter (\<lambda>i. issue_id i = issueId) rows')"
proof (induction rows arbitrary: rows')
  case Nil
  then show ?case by simp
next
  case (Cons r rs)
  show ?case
  proof (cases "issue_id r = issueId")
    case True
    with Cons.prems obtain x rs' where x: "apply_clauses us now cs r = Inr x"
      and rest: "update_rows us now cs issueId rs = Inr rs'"
      and eq: "rows' = update_updated_at_column now x # rs'"
      by (auto split: sum.splits)
    from apply_clauses_issue_id[OF x] True
    have "issue_id (update_updated_at_column now x) = issueId"
      by (simp add: update_updated_at_column_def)
    with True x eq Cons.IH[OF rest] show ?thesis by auto
  next
    case False
    with Cons.prems obtain rs' where rest: "update_rows us now cs issueId rs = Inr rs'"
      and eq: "rows' = r # rs'"
      by (auto split: sum.splits)
    with False Cons.IH[OF rest] show ?thesis by simp
  qed
qed

lemma refetch_after_update:
  assumes q: "sql_update_issues d now cs issueId = Inr (d', n)"
    and e: "issueId \<in> issue_id ` set (issues_tbl d)"
  shows "\<exists>r x rest. filter (\<lambda>i. issue_id i = issueId) (issues_tbl d) = r # rest \<and>
     apply_clauses (users_tbl d) now cs r = Inr x \<and>
     IssueModel_getIssueById d' issueId =
       Inr (Some (join_users (users_tbl d) (update_updated_at_column now x)))"
proof -
  note q' = sql_update_issues_Inr[OF q]
  from q' have b: "bind_integer issueId = None" by simp
  from q' have u: "users_tbl d' = users_tbl d"
  proof -
    from q' have "d' = d\<lparr>issues_tbl := issues_tbl d'\<rparr>" by simp
    then show ?thesis by (rule ssubst) simp
  qed
  from e obtain r rest where f: "filter (\<lambda>i. issue_id i = issueId) (issues_tbl d) = r # rest"
    by (cases "filter (\<lambda>i. issue_id i = issueId) (issues_tbl d)")
       (auto simp: filter_empty_conv)
  from q' have "update_rows (users_tbl d) now cs issueId (issues_tbl d) = Inr (issues_tbl d')"
    by simp
  from update_rows_selected[OF this] f obtain x rest' where
    x: "apply_clauses (users_tbl d) now cs r = Inr x" and
    f': "filter (\<lambda>i. issue_id i = issueId) (issues_tbl d') =
           update_updated_at_column now x # rest'"
    by (auto simp: list_all2_Cons1)
  from f' u b have "IssueModel_getIssueById d' issueId =
       Inr (Some (join_users (users_tbl d) (update_updated_at_column now x)))"
    by (simp add: IssueModel_getIssueById_def)
  with f x show ?thesis by blast
qed


lemma updateIssue_refetch:
  assumes "IssueModel_updateIssue d now i data = Inr (d', n)"
    and "i \<in> issue_id ` set (issues_tbl d)"
    and "bind_integer i = None"
  shows "\<exists>issue. IssueModel_getIssueById d' i = Inr (Some issue)"
proof (cases "length (updateFields_of data) = 1")
  case True
  with assms(1) have "d' = d" by (simp add: IssueModel_updateIssue_def)
  with getIssueById_Some[OF assms(3) assms(2)] show ?thesis by simp
next
  case False
  with assms(1) have "sql_update_issues d now (updateFields_of data) i = Inr (d', n)"
    by (simp add: IssueModel_updateIssue_def)
  from refetch_after_update[OF this assms(2)] show ?thesis by blast
qed

lemma updateStatus_refetch:
  assumes "IssueModel_updateStatus d now i s = Inr (d', n)"
    and "i \<in> issue_id ` set (issues_tbl d)"
  shows "\<exists>issue. IssueModel_getIssueById d' i = Inr (Some issue) \<and>
     map_option status_label (i_status issue) = sql_param s \<and>
     resolved_at issue =
       (if s = Val ''Resolved'' \<or> s = Val ''Closed'' then Some now else None) \<and>
     updated_at issue = now \<and> issue_id issue = i"
proof (cases "s = Val ISSUE_STATUS_RESOLVED \<or> s = Val ISSUE_STATUS_CLOSED")
  case True
  with assms(1) have "sql_update_issues d now
      [SetStatus (sql_param s), SetResolvedAtNow, SetUpdatedAtNow] i = Inr (d', n)"
    by (simp add: IssueModel_updateStatus_def)
  from refetch_after_update[OF this assms(2)] obtain r x rest where
    f: "filter (\<lambda>r. issue_id r = i) (issues_tbl d) = r # rest" and
    x: "apply_clauses (users_tbl d) now
          [SetStatus (sql_param s), SetResolvedAtNow, SetUpdatedAtNow] r = Inr x" and
    g: "IssueModel_getIssueById d' i =
          Inr (Some (join_users (users_tbl d) (update_updated_at_column now x)))"
    by blast
  from f have "r \<in> set (filter (\<lambda>r. issue_id r = i) (issues_tbl d))" by simp
  then have id: "issue_id r = i" by simp
  from x obtain st where st: "enum_in parse_status (sql_param s) = Inr st"
    and xe: "x = r\<lparr>i_status := st, resolved_at := Some now, updated_at := now\<rparr>"
    by (auto split: sum.splits)
  from True g id xe enum_in_status[OF st] show ?thesis
    by (auto simp: join_users_def update_updated_at_column_def ISSUE_STATUS_RESOLVED_def
        ISSUE_STATUS_CLOSED_def)
next
  case False
  with assms(1) have "sql_update_issues d now
      [SetStatus (sql_param s), SetResolvedAtNull, SetUpdatedAtNow] i = Inr (d', n)"
    by (simp add: IssueModel_updateStatus_def)
  from refetch_after_update[OF this assms(2)] obtain r x rest where
    f: "filter (\<lambda>r. issue_id r = i) (issues_tbl d) = r # rest" and
    x: "apply_clauses (users_tbl d) now
          [SetStatus (sql_param s), SetResolvedAtNull, SetUpdatedAtNow] r = Inr x" and
    g: "IssueModel_getIssueById d' i =
          Inr (Some (join_users (users_tbl d) (update_updated_at_column now x)))"
    by blast
  from f have "r \<in> set (filter (\<lambda>r. issue_id r = i) (issues_tbl d))" by simp
  then have id: "issue_id r = i" by simp
  from x obtain st where st: "enum_in parse_status (sql_param s) = Inr st"
    and xe: "x = r\<lparr>i_status := st, resolved_at := None, updated_at := now\<rparr>"
    by (auto split: sum.splits)
  from False g id xe enum_in_status[OF st] show ?thesis
    by (auto simp: join_users_def update_updated_at_column_def ISSUE_STATUS_RESOLVED_def
        ISSUE_STATUS_CLOSED_def)
qed

text \<open>
  Claim C5, as the code has it. The claim speaks of every id that is not in
  storage. The id of a request is bound to a query parameter of type \<open>INTEGER\<close>,
  and for an id that does not fit 32 bits the query itself fails: on the example
  store, where the issues are 1 and 2, \<open>getIssueById(2147483648)\<close> throws the
  error of the database instead of returning \<open>null\<close>, and the update,
  update-status and delete handlers pass that error to \<open>next\<close> instead of
  answering with \<open>notFoundResponse\<close>. The store is unchanged there too.
\<close>

theorem absent_id_beyond_integer_is_an_error:
  "map issue_id (issues_tbl demo_db) = [1, 2] \<and>
   IssueModel_getIssueById demo_db 2147483648 = Inl NumericOutOfRange \<and>
   IssueModel_getIssueById demo_db 2147483648 \<noteq> Inr None \<and>
   IssueController_updateIssue demo_db 9 (demo_req 2147483648 demo_close_body) =
     (demo_db, next_error (DbError NumericOutOfRange)) \<and>
   IssueController_updateIssue demo_db 9 (demo_req 2147483648 demo_close_body) \<noteq>
     (demo_db, notFoundResponse ''Issue not found'') \<and>
   IssueController_updateStatus demo_db 9 (demo_req 2147483648 demo_close_body) =
     (demo_db, next_error (DbError NumericOutOfRange)) \<and>
   IssueController_updateStatus demo_db 9 (demo_req 2147483648 demo_close_body) \<noteq>
     (demo_db, notFoundResponse ''Issue not found'') \<and>
   IssueController_deleteIssue demo_db (demo_req 2147483648 demo_close_body) =
     (demo_db, next_error (DbError NumericOutOfRange)) \<and>
   IssueController_deleteIssue demo_db (demo_req 2147483648 demo_close_body) \<noteq>
     (demo_db, notFoundResponse ''Issue not found'')"
proof -
  have r: "bind_integer 2147483648 = Some NumericOutOfRange"
    by (simp add: bind_integer_def)
  have g: "IssueModel_getIssueById demo_db 2147483648 = Inl NumericOutOfRange"
    by (simp add: IssueModel_getIssueById_def r)
  have p: "params_id (demo_req 2147483648 demo_close_body) = 2147483648"
    by (simp add: demo_req_def)
  have "map issue_id (issues_tbl demo_db) = [1, 2]"
    by (simp add: demo_defs)
  moreover have "IssueController_updateIssue demo_db 9 (demo_req 2147483648 demo_close_body) =
     (demo_db, next_error (DbError NumericOutOfRange))"
    by (simp add: IssueController_updateIssue_def p g)
  moreover have "IssueController_updateStatus demo_db 9 (demo_req 2147483648 demo_close_body) =
     (demo_db, next_error (DbError NumericOutOfRange))"
    by (simp add: IssueController_updateStatus_def p g)
  moreover have "IssueController_deleteIssue demo_db (demo_req 2147483648 demo_close_body) =
     (demo_db, next_error (DbError NumericOutOfRange))"
    by (simp add: IssueController_deleteIssue_def p g)
  ultimately show ?thesis using g by simp
qed

text \<open>
  Claim C5, amended. For an id within the range of the \<open>INTEGER\<close> column, from
  \<open>-2^31\<close> to \<open>2^31 - 1\<close>, that no row of \<open>issues\<close> has, \<open>getIssueById\<close> returns \<open>null\<close>
  and throws nothing, and the update, update-status and delete handlers each
  answer with \<open>notFoundResponse\<close> and leave the store as it was. For an id within
  that range that exists, when the write of the update or update-status handler
  succeeds, the handler fetches the issue again from the store after the write
  and answers with that record, formatted; after update-status the record carries
  the new status, the \<open>resolved_at\<close> that goes with it, and the current time as
  \<open>updated_at\<close>.
\<close>

theorem not_found_without_mutation:
  "- (2 ^ 31) \<le> params_id req \<and> params_id req < 2 ^ 31 \<longrightarrow>
   (params_id req \<notin> issue_id ` set (issues_tbl d) \<longrightarrow>
      IssueModel_getIssueById d (params_id req) = Inr None \<and>
      IssueController_updateIssue d now req = (d, notFoundResponse ''Issue not found'') \<and>
      IssueController_updateStatus d now req = (d, notFoundResponse ''Issue not found'') \<and>
      IssueController_deleteIssue d req = (d, notFoundResponse ''Issue not found'')) \<and>
   (params_id req \<in> issue_id ` set (issues_tbl d) \<longrightarrow>
      (\<forall>d' n. IssueModel_updateIssue d now (params_id req)
                 \<lparr>title = title (body req), description = description (body req),
                  status = status (body req), priority = priority (body req),
                  severity = severity (body req), assignedTo = assignedTo (body req),
                  createdBy = Undefined\<rparr> = Inr (d', n) \<longrightarrow>
         (\<exists>issue. IssueModel_getIssueById d' (params_id req) = Inr (Some issue) \<and>
            IssueController_updateIssue d now req =
              (d', successResponse (Some (formatIssueResponse issue))
                     ''Issue updated successfully''))) \<and>
      (\<forall>d' n. IssueModel_updateStatus d now (params_id req) (status (body req)) =
                 Inr (d', n) \<longrightarrow>
         (\<exists>issue. IssueModel_getIssueById d' (params_id req) = Inr (Some issue) \<and>
            map_option status_label (i_status issue) = sql_param (status (body req)) \<and>
            resolved_at issue =
              (if status (body req) = Val ''Resolved'' \<or> status (body req) = Val ''Closed''
               then Some now else None) \<and>
            updated_at issue = now \<and>
            IssueController_updateStatus d now req =
              (d', successResponse (Some (formatIssueResponse issue))
                     (''Issue status updated to '' @ [CHR 0x22] @
                      template_str (status (body req)) @ [CHR 0x22])))))"
proof (intro conjI impI allI)
  assume "- (2 ^ 31) \<le> params_id req \<and> params_id req < 2 ^ 31"
  then have b: "bind_integer (params_id req) = None" by (simp add: bind_integer_None)
  assume a: "params_id req \<notin> issue_id ` set (issues_tbl d)"
  with b have n: "IssueModel_getIssueById d (params_id req) = Inr None"
    by (simp add: getIssueById_None)
  then show "IssueModel_getIssueById d (params_id req) = Inr None" .
  from n show "IssueController_updateIssue d now req =
      (d, notFoundResponse ''Issue not found'')"
    by (simp add: IssueController_updateIssue_def)
  from n show "IssueController_updateStatus d now req =
      (d, notFoundResponse ''Issue not found'')"
    by (simp add: IssueController_updateStatus_def)
  from n show "IssueController_deleteIssue d req = (d, notFoundResponse ''Issue not found'')"
    by (simp add: IssueController_deleteIssue_def)
next
  fix d' n
  assume "- (2 ^ 31) \<le> params_id req \<and> params_id req < 2 ^ 31"
  then have b: "bind_integer (params_id req) = None" by (simp add: bind_integer_None)
  assume e: "params_id req \<in> issue_id ` set (issues_tbl d)"
    and w: "IssueModel_updateIssue d now (params_id req)
                 \<lparr>title = title (body req), description = description (body req),
                  status = status (body req), priority = priority (body req),
                  severity = severity (body req), assignedTo = assignedTo (body req),
                  createdBy = Undefined\<rparr> = Inr (d', n)"
  from getIssueById_Some[OF b e] obtain existing where
    x: "IssueModel_getIssueById d (params_id req) = Inr (Some existing)" by blast
  from updateIssue_refetch[OF w e b] obtain issue where
    i: "IssueModel_getIssueById d' (params_id req) = Inr (Some issue)" by blast
  from x w i have "IssueController_updateIssue d now req =
      (d', successResponse (Some (formatIssueResponse issue)) ''Issue updated successfully'')"
    by (simp add: IssueController_updateIssue_def)
  with i show "\<exists>issue. IssueModel_getIssueById d' (params_id req) = Inr (Some issue) \<and>
            IssueController_updateIssue d now req =
              (d', successResponse (Some (formatIssueResponse issue))
                     ''Issue updated successfully'')"
    by blast
next
  fix d' n
  assume "- (2 ^ 31) \<le> params_id req \<and> params_id req < 2 ^ 31"
  then have b: "bind_integer (params_id req) = None" by (simp add: bind_integer_None)
  assume e: "params_id req \<in> issue_id ` set (issues_tbl d)"
    and w: "IssueModel_updateStatus d now (params_id req) (status (body req)) = Inr (d', n)"
  from getIssueById_Some[OF b e] obtain existing where
    x: "IssueModel_getIssueById d (params_id req) = Inr (Some existing)" by blast
  from updateStatus_refetch[OF w e] obtain issue where
    i: "IssueModel_getIssueById d' (params_id req) = Inr (Some issue)" and
    p: "map_option status_label (i_status issue) = sql_param (status (body req))"
       "resolved_at issue =
         (if status (body req) = Val ''Resolved'' \<or> status (body req) = Val ''Closed''
          then Some now else None)"
       "updated_at issue = now"
    by blast
  from x w i have "IssueController_updateStatus d now req =
              (d', successResponse (Some (formatIssueResponse issue))
                     (''Issue status updated to '' @ [CHR 0x22] @
                      template_str (status (body req)) @ [CHR 0x22]))"
    by (simp add: IssueController_updateStatus_def)
  with i p show "\<exists>issue. IssueModel_getIssueById d' (params_id req) = Inr (Some issue) \<and>
            map_option status_label (i_status issue) = sql_param (status (body req)) \<and>
            resolved_at issue =
              (if status (body req) = Val ''Resolved'' \<or> status (body req) = Val ''Closed''
               then Some now else None) \<and>
            updated_at issue = now \<and>
            IssueController_updateStatus d now req =
              (d', successResponse (Some (formatIssueResponse issue))
                     (''Issue status updated to '' @ [CHR 0x22] @
                      template_str (status (body req)) @ [CHR 0x22]))"
    by blast
qed

text \<open>
  On the example store no issue has the id 7, and the three handlers answer not
  found without a write; closing issue 2 answers with the record as it is after
  the write.
\<close>

theorem not_found_without_mutation_witness:
  "- (2 ^ 31) \<le> (7 :: int) \<and> (7 :: int) < 2 ^ 31 \<and>
   7 \<notin> issue_id ` set (issues_tbl demo_db) \<and>
   IssueModel_getIssueById demo_db 7 = Inr None \<and>
   IssueController_updateIssue demo_db 9 (demo_req 7 demo_close_body) =
     (demo_db, notFoundResponse ''Issue not found'') \<and>
   IssueController_updateStatus demo_db 9 (demo_req 7 demo_close_body) =
     (demo_db, notFoundResponse ''Issue not found'') \<and>
   IssueController_deleteIssue demo_db (demo_req 7 demo_close_body) =
     (demo_db, notFoundResponse ''Issue not found'') \<and>
   2 \<in> issue_id ` set (issues_tbl demo_db) \<and>
   IssueModel_updateStatus demo_db 9 2 (Val ''Closed'') =
     Inr (demo_db\<lparr>issues_tbl :=
            [demo_issue1,
             demo_issue2\<lparr>i_status := Some Closed, updated_at := 9,
                          resolved_at := Some 9\<rparr>]\<rparr>, 1) \<and>
   IssueController_updateStatus demo_db 9 (demo_req 2 demo_close_body) =
     (demo_db\<lparr>issues_tbl :=
            [demo_issue1,
             demo_issue2\<lparr>i_status := Some Closed, updated_at := 9,
                          resolved_at := Some 9\<rparr>]\<rparr>,
      successResponse
        (Some \<lparr>dto_id = 2, dto_title = ''Crash on export'', dto_description = None,
               dto_status = Some ''Closed'', dto_priority = Some ''Medium'',
               dto_severity = Some ''Minor'',
               dto_createdBy = \<lparr>ref_id = 1, ref_name = Some ''Ann'',
                                 ref_email = Some ''a@b.c''\<rparr>,
               dto_assignedTo = None, dto_createdAt = 6, dto_updatedAt = 9,
               dto_resolvedAt = Some 9\<rparr>)
        (''Issue status updated to '' @ [CHR 0x22] @ ''Closed'' @ [CHR 0x22])) \<and>
   IssueController_updateIssue demo_db 9 (demo_req 2 demo_close_body) =
     (demo_db\<lparr>issues_tbl :=
            [demo_issue1,
             demo_issue2\<lparr>i_status := Some Closed, updated_at := 9,
                          resolved_at := Some 9\<rparr>]\<rparr>,
      successResponse
        (Some \<lparr>dto_id = 2, dto_title = ''Crash on export'', dto_description = None,
               dto_status = Some ''Closed'', dto_priority = Some ''Medium'',
               dto_severity = Some ''Minor'',
               dto_createdBy = \<lparr>ref_id = 1, ref_name = Some ''Ann'',
                                 ref_email = Some ''a@b.c''\<rparr>,
               dto_assignedTo = None, dto_createdAt = 6, dto_updatedAt = 9,
               dto_resolvedAt = Some 9\<rparr>)
        ''Issue updated successfully'')"
proof -
  have ui: "IssueController_updateIssue demo_db 9 (demo_req 2 demo_close_body) =
     (demo_db\<lparr>issues_tbl :=
            [demo_issue1,
             demo_issue2\<lparr>i_status := Some Closed, updated_at := 9,
                          resolved_at := Some 9\<rparr>]\<rparr>,
      successResponse
        (Some \<lparr>dto_id = 2, dto_title = ''Crash on export'', dto_description = None,
               dto_status = Some ''Closed'', dto_priority = Some ''Medium'',
               dto_severity = Some ''Minor'',
               dto_createdBy = \<lparr>ref_id = 1, ref_name = Some ''Ann'',
                                 ref_email = Some ''a@b.c''\<rparr>,
               dto_assignedTo = None, dto_createdAt = 6, dto_updatedAt = 9,
               dto_resolvedAt = Some 9\<rparr>)
        ''Issue updated successfully'')"
    by (simp add: controller_defs update_defs demo_defs)
  have r7: "- (2 ^ 31) \<le> params_id (demo_req 7 demo_close_body) \<and>
      params_id (demo_req 7 demo_close_body) < 2 ^ 31"
    by (simp add: demo_req_def)
  have r2: "- (2 ^ 31) \<le> params_id (demo_req 2 demo_close_body) \<and>
      params_id (demo_req 2 demo_close_body) < 2 ^ 31"
    by (simp add: demo_req_def)
  have a: "params_id (demo_req 7 demo_close_body) \<notin> issue_id ` set (issues_tbl demo_db)"
    by (simp add: demo_defs demo_req_def)
  have e: "params_id (demo_req 2 demo_close_body) \<in> issue_id ` set (issues_tbl demo_db)"
    by (simp add: demo_defs demo_req_def)
  have w: "IssueModel_updateStatus demo_db 9 (params_id (demo_req 2 demo_close_body))
      (status (body (demo_req 2 demo_close_body))) =
     Inr (demo_db\<lparr>issues_tbl :=
            [demo_issue1,
             demo_issue2\<lparr>i_status := Some Closed, updated_at := 9,
                          resolved_at := Some 9\<rparr>]\<rparr>, 1)"
    by (simp add: demo_defs update_defs demo_req_def demo_close_body_def)
  have g: "IssueModel_getIssueById
      (demo_db\<lparr>issues_tbl :=
            [demo_issue1,
             demo_issue2\<lparr>i_status := Some Closed, updated_at := 9,
                          resolved_at := Some 9\<rparr>]\<rparr>) 2 =
      Inr (Some (join_users demo_users
             (demo_issue2\<lparr>i_status := Some Closed, updated_at := 9, resolved_at := Some 9\<rparr>)))"
    by (simp add: IssueModel_getIssueById_def bind_integer_def demo_defs)
  from not_found_without_mutation[of "demo_req 7 demo_close_body" demo_db 9] r7 a
  have nf: "IssueModel_getIssueById demo_db (params_id (demo_req 7 demo_close_body)) =
     Inr None \<and>
   IssueController_updateIssue demo_db 9 (demo_req 7 demo_close_body) =
     (demo_db, notFoundResponse ''Issue not found'') \<and>
   IssueController_updateStatus demo_db 9 (demo_req 7 demo_close_body) =
     (demo_db, notFoundResponse ''Issue not found'') \<and>
   IssueController_deleteIssue demo_db (demo_req 7 demo_close_body) =
     (demo_db, notFoundResponse ''Issue not found'')"
    by blast
  from not_found_without_mutation[of "demo_req 2 demo_close_body" demo_db 9] r2 e w
  obtain issue where
    i: "IssueModel_getIssueById
      (demo_db\<lparr>issues_tbl :=
            [demo_issue1,
             demo_issue2\<lparr>i_status := Some Closed, updated_at := 9,
                          resolved_at := Some 9\<rparr>]\<rparr>)
      (params_id (demo_req 2 demo_close_body)) = Inr (Some issue)" and
    c: "IssueController_updateStatus demo_db 9 (demo_req 2 demo_close_body) =
      (demo_db\<lparr>issues_tbl :=
            [demo_issue1,
             demo_issue2\<lparr>i_status := Some Closed, updated_at := 9,
                          resolved_at := Some 9\<rparr>]\<rparr>,
       successResponse (Some (formatIssueResponse issue))
         (''Issue status updated to '' @ [CHR 0x22] @
          template_str (status (body (demo_req 2 demo_close_body))) @ [CHR 0x22]))"
    by blast
  from i g have "issue = join_users demo_users
             (demo_issue2\<lparr>i_status := Some Closed, updated_at := 9, resolved_at := Some 9\<rparr>)"
    by (simp add: demo_req_def)
  with c have c': "IssueController_updateStatus demo_db 9 (demo_req 2 demo_close_body) =
     (demo_db\<lparr>issues_tbl :=
            [demo_issue1,
             demo_issue2\<lparr>i_status := Some Closed, updated_at := 9,
                          resolved_at := Some 9\<rparr>]\<rparr>,
      successResponse
        (Some \<lparr>dto_id = 2, dto_title = ''Crash on export'', dto_description = None,
               dto_status = Some ''Closed'', dto_priority = Some ''Medium'',
               dto_severity = Some ''Minor'',
               dto_createdBy = \<lparr>ref_id = 1, ref_name = Some ''Ann'',
                                 ref_email = Some ''a@b.c''\<rparr>,
               dto_assignedTo = None, dto_createdAt = 6, dto_updatedAt = 9,
               dto_resolvedAt = Some 9\<rparr>)
        (''Issue status updated to '' @ [CHR 0x22] @ ''Closed'' @ [CHR 0x22]))"
    by (simp add: join_users_def formatIssueResponse_def find_user_def demo_defs
        demo_req_def demo_close_body_def)
  from a e w nf c' ui show ?thesis
    by (simp add: demo_req_def demo_close_body_def)
qed


section \<open>The creator of a new issue\<close>

lemma createIssue_ignores_body_creator:
  "IssueController_createIssue d now
     (req\<lparr>body := (body req)\<lparr>createdBy := x, body_created_by := y\<rparr>\<rparr>) =
   IssueController_createIssue d now req"
  by (cases "user req") (simp_all add: IssueController_createIssue_def)

lemma insert_issue_Inr:
  assumes "sql_insert_issue d now pt pd ps pp pv pc pa = (d', Inr i)"
  shows "\<exists>t c st pr sv. pt = Some t \<and> pc = Some c \<and> i = issues_seq d \<and>
     bind_integer (issues_seq d) = None \<and>
     (\<forall>r \<in> set (issues_tbl d). issue_id r \<noteq> issues_seq d) \<and>
     user_exists (users_tbl d) c \<and>
     d' = d\<lparr>issues_seq := issues_seq d + 1,
            issues_tbl := issues_tbl d @
              [\<lparr>issue_id = issues_seq d, i_title = t, i_description = pd,
                i_status = st, i_priority = pr, i_severity = sv,
                created_by = c, assigned_to = pa,
                created_at = now, updated_at = now, resolved_at = None\<rparr>]\<rparr>"
  using assms
  by (auto simp: sql_insert_issue_def Let_def split: sum.splits option.splits if_splits)

text \<open>
  Claim C3. Two create requests of the same caller that differ only in the
  \<open>createdBy\<close> or \<open>created_by\<close> field of the body have the same outcome, store and
  response; and whenever the handler answers with \<open>createdResponse\<close>, the one row
  it added has the \<open>userId\<close> of \<open>req.user\<close> as \<open>created_by\<close>, and that is the
  creator the response shows.
\<close>

theorem creator_is_the_authenticated_caller:
  "IssueController_createIssue d now
     (req\<lparr>body := (body req)\<lparr>createdBy := x, body_created_by := y\<rparr>\<rparr>) =
   IssueController_createIssue d now req \<and>
   (\<forall>d' dto msg. IssueController_createIssue d now req = (d', createdResponse dto msg) \<longrightarrow>
      (\<exists>u row. user req = Val u \<and>
         issues_tbl d' = issues_tbl d @ [row] \<and>
         created_by row = userId u \<and>
         dto_id dto = issue_id row \<and>
         ref_id (dto_createdBy dto) = userId u))"
proof (intro conjI allI impI)
  show "IssueController_createIssue d now
     (req\<lparr>body := (body req)\<lparr>createdBy := x, body_created_by := y\<rparr>\<rparr>) =
   IssueController_createIssue d now req"
    by (rule createIssue_ignores_body_creator)
next
  fix d' dto msg
  assume a: "IssueController_createIssue d now req = (d', createdResponse dto msg)"
  then obtain u where u: "user req = Val u"
    by (cases "user req") (auto simp: IssueController_createIssue_def)
  let ?data = "\<lparr>title = title (body req), description = description (body req),
                   status = status (body req), priority = priority (body req),
                   severity = severity (body req), assignedTo = assignedTo (body req),
                   createdBy = Val (userId u)\<rparr>"
  obtain d1 res where m0: "IssueModel_createIssue d now ?data = (d1, res)"
    by (cases "IssueModel_createIssue d now ?data") auto
  from a u m0 have a1: "(case res of
       Inl e \<Rightarrow> (d1, next_error (DbError e))
     | Inr insertId \<Rightarrow>
         (case IssueModel_getIssueById d1 insertId of
            Inl e \<Rightarrow> (d1, next_error (DbError e))
          | Inr None \<Rightarrow> (d1, next_error TypeError)
          | Inr (Some issue) \<Rightarrow>
              (d1, createdResponse (formatIssueResponse issue)
                     ''Issue created successfully''))) = (d', createdResponse dto msg)"
    by (simp add: IssueController_createIssue_def)
  then obtain i where res: "res = Inr i" by (cases res) auto
  with a1 obtain issue where g: "IssueModel_getIssueById d1 i = Inr (Some issue)"
    by (cases "IssueModel_getIssueById d1 i") (auto split: option.splits)
  from a1 res g have r: "d' = d1" "dto = formatIssueResponse issue" by auto
  from m0 res have m: "IssueModel_createIssue d now ?data = (d1, Inr i)" by simp
  from m have "sql_insert_issue d now (sql_param (title (body req)))
      (sql_param (dflt Null (description (body req))))
      (sql_param (dflt (Val ISSUE_STATUS_OPEN) (status (body req))))
      (sql_param (dflt (Val ''Medium'') (priority (body req))))
      (sql_param (dflt (Val ''Minor'') (severity (body req))))
      (Some (userId u)) (sql_param (dflt Null (assignedTo (body req)))) = (d1, Inr i)"
    by (simp add: IssueModel_createIssue_def Let_def)
  then obtain pt pd ps pp pv pa where
    s: "sql_insert_issue d now pt pd ps pp pv (Some (userId u)) pa = (d1, Inr i)" by blast
  from insert_issue_Inr[OF s] obtain t st pr sv where
    i: "i = issues_seq d" and
    fits: "bind_integer (issues_seq d) = None" and
    fresh: "\<forall>r \<in> set (issues_tbl d). issue_id r \<noteq> issues_seq d" and
    d1: "d1 = d\<lparr>issues_seq := issues_seq d + 1,
            issues_tbl := issues_tbl d @
              [\<lparr>issue_id = issues_seq d, i_title = t, i_description = pd,
                i_status = st, i_priority = pr, i_severity = sv,
                created_by = userId u, assigned_to = pa,
                created_at = now, updated_at = now, resolved_at = None\<rparr>]\<rparr>"
    by auto
  let ?row = "\<lparr>issue_id = issues_seq d, i_title = t, i_description = pd,
                i_status = st, i_priority = pr, i_severity = sv,
                created_by = userId u, assigned_to = pa,
                created_at = now, updated_at = now, resolved_at = None\<rparr>"
  from fresh have "filter (\<lambda>r. issue_id r = issues_seq d) (issues_tbl d) = []"
    by (simp add: filter_empty_conv)
  with g i d1 fits have "issue = join_users (users_tbl d) ?row"
    by (simp add: IssueModel_getIssueById_def)
  with r have "dto_id dto = issue_id ?row" "ref_id (dto_createdBy dto) = userId u"
    by (simp_all add: formatIssueResponse_def join_users_def)
  moreover from r d1 have "issues_tbl d' = issues_tbl d @ [?row]" by simp
  moreover have "created_by ?row = userId u" by simp
  ultimately show "\<exists>u row. user req = Val u \<and>
         issues_tbl d' = issues_tbl d @ [row] \<and>
         created_by row = userId u \<and>
         dto_id dto = issue_id row \<and>
         ref_id (dto_createdBy dto) = userId u"
    using u by blast
qed

text \<open>
  Ann (user 1) creates \<open>Bug A\<close> on the example store; a body that names user 2 as
  creator gives the same store and the same response.
\<close>

theorem creator_is_the_authenticated_caller_witness:
  "IssueController_createIssue demo_db 9 (demo_req 0 demo_new_body) =
     (demo_db\<lparr>issues_seq := 4,
              issues_tbl := [demo_issue1, demo_issue2,
                \<lparr>issue_id = 3, i_title = ''Bug A'', i_description = None,
                 i_status = Some Open, i_priority = Some P_Medium,
                 i_severity = Some S_Minor, created_by = 1, assigned_to = None,
                 created_at = 9, updated_at = 9, resolved_at = None\<rparr>]\<rparr>,
      createdResponse
        \<lparr>dto_id = 3, dto_title = ''Bug A'', dto_description = None,
         dto_status = Some ''Open'', dto_priority = Some ''Medium'',
         dto_severity = Some ''Minor'',
         dto_createdBy = \<lparr>ref_id = 1, ref_name = Some ''Ann'', ref_email = Some ''a@b.c''\<rparr>,
         dto_assignedTo = None, dto_createdAt = 9, dto_updatedAt = 9,
         dto_resolvedAt = None\<rparr>
        ''Issue created successfully'') \<and>
   IssueController_createIssue demo_db 9
     (demo_req 0 (demo_new_body\<lparr>createdBy := Val 2, body_created_by := Val 2\<rparr>)) =
   IssueController_createIssue demo_db 9 (demo_req 0 demo_new_body)"
proof -
  have c: "IssueController_createIssue demo_db 9 (demo_req 0 demo_new_body) =
     (demo_db\<lparr>issues_seq := 4,
              issues_tbl := [demo_issue1, demo_issue2,
                \<lparr>issue_id = 3, i_title = ''Bug A'', i_description = None,
                 i_status = Some Open, i_priority = Some P_Medium,
                 i_severity = Some S_Minor, created_by = 1, assigned_to = None,
                 created_at = 9, updated_at = 9, resolved_at = None\<rparr>]\<rparr>,
      createdResponse
        \<lparr>dto_id = 3, dto_title = ''Bug A'', dto_description = None,
         dto_status = Some ''Open'', dto_priority = Some ''Medium'',
         dto_severity = Some ''Minor'',
         dto_createdBy = \<lparr>ref_id = 1, ref_name = Some ''Ann'', ref_email = Some ''a@b.c''\<rparr>,
         dto_assignedTo = None, dto_createdAt = 9, dto_updatedAt = 9,
         dto_resolvedAt = None\<rparr>
        ''Issue created successfully'')"
    by (simp add: controller_defs demo_defs update_defs)
  from creator_is_the_authenticated_caller
         [where d = demo_db and now = 9 and req = "demo_req 0 demo_new_body"
            and x = "Val 2" and y = "Val 2"] c
  show ?thesis by (simp add: demo_req_def)
qed


section \<open>The status counts\<close>

lemma status_key_inj: "status_key a = status_key b \<longleftrightarrow> a = b"
  by (cases a; cases b; (cases "the a")?; (cases "the b")?) (auto simp: status_key_def)

lemma status_key_not_total: "status_key a \<noteq> ''total''" "''total'' \<noteq> status_key a"
  by (cases a; (cases "the a")?; auto simp: status_key_def)+

lemma count_row_apply:
  assumes "c ''total'' = Some t"
  shows "count_row c (s, m) ''total'' = Some (t + m)"
    and "count_row c (s, m) (status_key s') = (if s' = s then Some m else c (status_key s'))"
    and "k \<noteq> ''total'' \<Longrightarrow> k \<notin> range status_key \<Longrightarrow> count_row c (s, m) k = c k"
  using assms
  by (auto simp: count_row_def Let_def status_key_not_total status_key_inj)

lemma foldl_count_row:
  assumes "distinct ss" and "c ''total'' = Some t"
  shows "foldl count_row c (map (\<lambda>s. (s, f s)) ss) ''total'' =
           Some (t + sum_list (map f ss)) \<and>
         (\<forall>s. foldl count_row c (map (\<lambda>s. (s, f s)) ss) (status_key s) =
                (if s \<in> set ss then Some (f s) else c (status_key s))) \<and>
         (\<forall>k. k \<noteq> ''total'' \<and> k \<notin> range status_key \<longrightarrow>
                foldl count_row c (map (\<lambda>s. (s, f s)) ss) k = c k)"
  using assms
proof (induction ss arbitrary: c t)
  case Nil
  then show ?case by simp
next
  case (Cons a ss)
  from Cons.prems(1) have d: "distinct ss" and ns: "a \<notin> set ss" by auto
  note ca = count_row_apply[where c = c and t = t and s = a and m = "f a", OF Cons.prems(2)]
  note ih = Cons.IH[where c = "count_row c (a, f a)" and t = "t + f a", OF d ca(1)]
  show ?case
  proof (intro conjI allI impI)
    from ih show "foldl count_row c (map (\<lambda>s. (s, f s)) (a # ss)) ''total'' =
        Some (t + sum_list (map f (a # ss)))"
      by (simp add: add.assoc)
  next
    fix s
    from ih have "foldl count_row (count_row c (a, f a)) (map (\<lambda>s. (s, f s)) ss)
        (status_key s) =
        (if s \<in> set ss then Some (f s) else count_row c (a, f a) (status_key s))"
      by blast
    with ca(2)[where s' = s] ns
    show "foldl count_row c (map (\<lambda>s. (s, f s)) (a # ss)) (status_key s) =
        (if s \<in> set (a # ss) then Some (f s) else c (status_key s))"
      by auto
  next
    fix k
    assume k: "k \<noteq> ''total'' \<and> k \<notin> range status_key"
    with ih have "foldl count_row (count_row c (a, f a)) (map (\<lambda>s. (s, f s)) ss) k =
        count_row c (a, f a) k" by blast
    with k ca(3)[where k = k]
    show "foldl count_row c (map (\<lambda>s. (s, f s)) (a # ss)) k = c k" by simp
  qed
qed

lemma sum_counts:
  "sum_list (map (\<lambda>s. length (filter (\<lambda>i. g i = s) xs)) (remdups (map g xs))) = length xs"
proof -
  have "sum_list (map (\<lambda>s. length (filter (\<lambda>i. g i = s) xs)) (remdups (map g xs))) =
      (\<Sum>s \<in> set (map g xs). length (filter (\<lambda>i. g i = s) xs))"
    by (simp add: sum_list_distinct_conv_sum_set)
  also have "\<dots> = (\<Sum>s \<in> g ` set xs. card {k. k < length xs \<and> g (xs ! k) = s})"
    by (simp add: length_filter_conv_card)
  also have "\<dots> = card (\<Union>s \<in> g ` set xs. {k. k < length xs \<and> g (xs ! k) = s})"
    by (subst card_UN_disjoint) auto
  also have "(\<Union>s \<in> g ` set xs. {k. k < length xs \<and> g (xs ! k) = s}) = {..<length xs}"
    using nth_mem[of _ xs] by fastforce
  finally show ?thesis by simp
qed


lemma diff_absent: "x \<notin> A \<Longrightarrow> A - {x} = B \<Longrightarrow> A = B"
  by auto

lemma range_status_key:
  "range status_key = {''null'', ''Open'', ''In Progress'', ''Resolved'', ''Closed''}"
proof
  show "range status_key \<subseteq> {''null'', ''Open'', ''In Progress'', ''Resolved'', ''Closed''}"
  proof
    fix k assume "k \<in> range status_key"
    then obtain s where "k = status_key s" by auto
    then show "k \<in> {''null'', ''Open'', ''In Progress'', ''Resolved'', ''Closed''}"
      by (cases s; (cases "the s")?) (auto simp: status_key_def)
  qed
next
  have "status_key None = ''null''" "status_key (Some Open) = ''Open''"
    "status_key (Some In_Progress) = ''In Progress''"
    "status_key (Some Resolved) = ''Resolved''" "status_key (Some Closed) = ''Closed''"
    by (simp_all add: status_key_def)
  then show "{''null'', ''Open'', ''In Progress'', ''Resolved'', ''Closed''} \<subseteq> range status_key"
    by (metis insert_subset empty_subsetI rangeI)
qed

lemma length_by_status:
  "length xs =
     length (filter (\<lambda>i. i_status i = Some Open) xs) +
     length (filter (\<lambda>i. i_status i = Some In_Progress) xs) +
     length (filter (\<lambda>i. i_status i = Some Resolved) xs) +
     length (filter (\<lambda>i. i_status i = Some Closed) xs) +
     length (filter (\<lambda>i. i_status i = None) xs)"
proof (induction xs)
  case Nil
  then show ?case by simp
next
  case (Cons x xs)
  then show ?case
    by (cases "i_status x"; (cases "the (i_status x)")?) auto
qed

lemma getStatusCounts_apply:
  "IssueModel_getStatusCounts d ''total'' = Some (length (issues_tbl d))"
  "IssueModel_getStatusCounts d (status_key s) =
     (if s \<in> set (map i_status (issues_tbl d))
      then Some (length (filter (\<lambda>i. i_status i = s) (issues_tbl d)))
      else if s = None then None else Some 0)"
  "k \<noteq> ''total'' \<Longrightarrow> k \<notin> range status_key \<Longrightarrow> IssueModel_getStatusCounts d k = None"
proof -
  let ?init = "[''Open'' \<mapsto> 0::nat, ''In Progress'' \<mapsto> 0, ''Resolved'' \<mapsto> 0,
      ''Closed'' \<mapsto> 0, ''total'' \<mapsto> 0]"
  let ?f = "\<lambda>s. length (filter (\<lambda>i. i_status i = s) (issues_tbl d))"
  have t: "?init ''total'' = Some 0" by simp
  have dd: "distinct (remdups (map i_status (issues_tbl d)))" by simp
  note m = foldl_count_row[where c = ?init and t = 0 and f = ?f, OF dd t]
  from m show "IssueModel_getStatusCounts d ''total'' = Some (length (issues_tbl d))"
    unfolding IssueModel_getStatusCounts_def sql_group_by_status_def
    by (simp add: sum_counts)
  have i: "?init (status_key s) = (if s = None then None else Some 0)"
    by (cases s; (cases "the s")?) (auto simp: status_key_def)
  from m have "foldl count_row ?init
      (map (\<lambda>s. (s, ?f s)) (remdups (map i_status (issues_tbl d)))) (status_key s) =
      (if s \<in> set (remdups (map i_status (issues_tbl d))) then Some (?f s)
       else ?init (status_key s))"
    by blast
  with i show "IssueModel_getStatusCounts d (status_key s) =
     (if s \<in> set (map i_status (issues_tbl d))
      then Some (length (filter (\<lambda>i. i_status i = s) (issues_tbl d)))
      else if s = None then None else Some 0)"
    unfolding IssueModel_getStatusCounts_def sql_group_by_status_def by simp
  assume k: "k \<noteq> ''total''" "k \<notin> range status_key"
  with m have "foldl count_row ?init
      (map (\<lambda>s. (s, ?f s)) (remdups (map i_status (issues_tbl d)))) k = ?init k"
    by blast
  moreover from k have "?init k = None" by (auto simp: range_status_key)
  ultimately show "IssueModel_getStatusCounts d k = None"
    unfolding IssueModel_getStatusCounts_def sql_group_by_status_def by simp
qed

lemma getStatusCounts_status:
  "IssueModel_getStatusCounts d (status_key s) =
     (if s = None \<and> length (filter (\<lambda>i. i_status i = s) (issues_tbl d)) = 0 then None
      else Some (length (filter (\<lambda>i. i_status i = s) (issues_tbl d))))"
proof -
  have "s \<notin> set (map i_status (issues_tbl d)) \<longleftrightarrow>
      length (filter (\<lambda>i. i_status i = s) (issues_tbl d)) = 0"
    by (auto simp: filter_empty_conv)
  then show ?thesis
    by (simp only: getStatusCounts_apply(2)) auto
qed

text \<open>
  Claim C9. In every state of the store the object that \<open>getStatusCounts\<close> returns
  has the keys \<open>Open\<close>, \<open>In Progress\<close>, \<open>Resolved\<close> and \<open>Closed\<close>, each with the number
  of issues in that status (0 when there is none), and \<open>total\<close>, which is the sum
  of the counts of all groups of the query. A group of issues whose status is NULL
  is one more per-status entry, under the key \<open>null\<close>; it is absent when no issue
  has a NULL status, and then the keys are the four known ones and \<open>total\<close>, and
  \<open>total\<close> is the sum of the four known counts. There is never another key.
\<close>

theorem getStatusCounts_keys_and_total:
  "IssueModel_getStatusCounts d ''Open'' =
     Some (length (filter (\<lambda>i. i_status i = Some Open) (issues_tbl d))) \<and>
   IssueModel_getStatusCounts d ''In Progress'' =
     Some (length (filter (\<lambda>i. i_status i = Some In_Progress) (issues_tbl d))) \<and>
   IssueModel_getStatusCounts d ''Resolved'' =
     Some (length (filter (\<lambda>i. i_status i = Some Resolved) (issues_tbl d))) \<and>
   IssueModel_getStatusCounts d ''Closed'' =
     Some (length (filter (\<lambda>i. i_status i = Some Closed) (issues_tbl d))) \<and>
   IssueModel_getStatusCounts d ''null'' =
     (if length (filter (\<lambda>i. i_status i = None) (issues_tbl d)) = 0 then None
      else Some (length (filter (\<lambda>i. i_status i = None) (issues_tbl d)))) \<and>
   dom (IssueModel_getStatusCounts d) - {''null''} =
     {''Open'', ''In Progress'', ''Resolved'', ''Closed'', ''total''} \<and>
   IssueModel_getStatusCounts d ''total'' =
     Some (length (filter (\<lambda>i. i_status i = Some Open) (issues_tbl d)) +
           length (filter (\<lambda>i. i_status i = Some In_Progress) (issues_tbl d)) +
           length (filter (\<lambda>i. i_status i = Some Resolved) (issues_tbl d)) +
           length (filter (\<lambda>i. i_status i = Some Closed) (issues_tbl d)) +
           length (filter (\<lambda>i. i_status i = None) (issues_tbl d))) \<and>
   ((\<forall>i \<in> set (issues_tbl d). i_status i \<noteq> None) \<longrightarrow>
      dom (IssueModel_getStatusCounts d) =
        {''Open'', ''In Progress'', ''Resolved'', ''Closed'', ''total''} \<and>
      IssueModel_getStatusCounts d ''total'' =
        Some (length (filter (\<lambda>i. i_status i = Some Open) (issues_tbl d)) +
              length (filter (\<lambda>i. i_status i = Some In_Progress) (issues_tbl d)) +
              length (filter (\<lambda>i. i_status i = Some Resolved) (issues_tbl d)) +
              length (filter (\<lambda>i. i_status i = Some Closed) (issues_tbl d))))"
proof -
  have k: "status_key None = ''null''" "status_key (Some Open) = ''Open''"
    "status_key (Some In_Progress) = ''In Progress''"
    "status_key (Some Resolved) = ''Resolved''" "status_key (Some Closed) = ''Closed''"
    by (simp_all add: status_key_def)
  have o: "IssueModel_getStatusCounts d ''Open'' =
     Some (length (filter (\<lambda>i. i_status i = Some Open) (issues_tbl d)))"
    using getStatusCounts_status[of d "Some Open"] by (simp add: k)
  have p: "IssueModel_getStatusCounts d ''In Progress'' =
     Some (length (filter (\<lambda>i. i_status i = Some In_Progress) (issues_tbl d)))"
    using getStatusCounts_status[of d "Some In_Progress"] by (simp add: k)
  have r: "IssueModel_getStatusCounts d ''Resolved'' =
     Some (length (filter (\<lambda>i. i_status i = Some Resolved) (issues_tbl d)))"
    using getStatusCounts_status[of d "Some Resolved"] by (simp add: k)
  have c: "IssueModel_getStatusCounts d ''Closed'' =
     Some (length (filter (\<lambda>i. i_status i = Some Closed) (issues_tbl d)))"
    using getStatusCounts_status[of d "Some Closed"] by (simp add: k)
  have n: "IssueModel_getStatusCounts d ''null'' =
     (if length (filter (\<lambda>i. i_status i = None) (issues_tbl d)) = 0 then None
      else Some (length (filter (\<lambda>i. i_status i = None) (issues_tbl d))))"
    using getStatusCounts_status[of d None] by (simp add: k)
  have t: "IssueModel_getStatusCounts d ''total'' =
     Some (length (filter (\<lambda>i. i_status i = Some Open) (issues_tbl d)) +
           length (filter (\<lambda>i. i_status i = Some In_Progress) (issues_tbl d)) +
           length (filter (\<lambda>i. i_status i = Some Resolved) (issues_tbl d)) +
           length (filter (\<lambda>i. i_status i = Some Closed) (issues_tbl d)) +
           length (filter (\<lambda>i. i_status i = None) (issues_tbl d)))"
    using getStatusCounts_apply(1)[of d] length_by_status[of "issues_tbl d"] by simp
  have dm: "dom (IssueModel_getStatusCounts d) - {''null''} =
     {''Open'', ''In Progress'', ''Resolved'', ''Closed'', ''total''}"
  proof
    show "dom (IssueModel_getStatusCounts d) - {''null''} \<subseteq>
        {''Open'', ''In Progress'', ''Resolved'', ''Closed'', ''total''}"
    proof
      fix x assume x: "x \<in> dom (IssueModel_getStatusCounts d) - {''null''}"
      show "x \<in> {''Open'', ''In Progress'', ''Resolved'', ''Closed'', ''total''}"
      proof (rule ccontr)
        assume "x \<notin> {''Open'', ''In Progress'', ''Resolved'', ''Closed'', ''total''}"
        with x have "x \<noteq> ''total''" "x \<notin> range status_key"
          by (auto simp: range_status_key)
        from getStatusCounts_apply(3)[OF this] x show False by auto
      qed
    qed
  next
    from o p r c t
    show "{''Open'', ''In Progress'', ''Resolved'', ''Closed'', ''total''} \<subseteq>
        dom (IssueModel_getStatusCounts d) - {''null''}"
      by auto
  qed
  have nn: "((\<forall>i \<in> set (issues_tbl d). i_status i \<noteq> None) \<longrightarrow>
      dom (IssueModel_getStatusCounts d) =
        {''Open'', ''In Progress'', ''Resolved'', ''Closed'', ''total''} \<and>
      IssueModel_getStatusCounts d ''total'' =
        Some (length (filter (\<lambda>i. i_status i = Some Open) (issues_tbl d)) +
              length (filter (\<lambda>i. i_status i = Some In_Progress) (issues_tbl d)) +
              length (filter (\<lambda>i. i_status i = Some Resolved) (issues_tbl d)) +
              length (filter (\<lambda>i. i_status i = Some Closed) (issues_tbl d))))"
  proof (intro impI conjI)
    assume a: "\<forall>i \<in> set (issues_tbl d). i_status i \<noteq> None"
    then have z: "filter (\<lambda>i. i_status i = None) (issues_tbl d) = []"
      by (simp add: filter_empty_conv)
    with n have "''null'' \<notin> dom (IssueModel_getStatusCounts d)" by (simp add: domIff)
    from diff_absent[OF this dm]
    show "dom (IssueModel_getStatusCounts d) =
        {''Open'', ''In Progress'', ''Resolved'', ''Closed'', ''total''}" .
    from t z show "IssueModel_getStatusCounts d ''total'' =
        Some (length (filter (\<lambda>i. i_status i = Some Open) (issues_tbl d)) +
              length (filter (\<lambda>i. i_status i = Some In_Progress) (issues_tbl d)) +
              length (filter (\<lambda>i. i_status i = Some Resolved) (issues_tbl d)) +
              length (filter (\<lambda>i. i_status i = Some Closed) (issues_tbl d)))"
      by simp
  qed
  from o p r c n dm t nn show ?thesis by (intro conjI)
qed

text \<open>The example store has one open and one resolved issue.\<close>

theorem getStatusCounts_keys_and_total_witness:
  "map i_status (issues_tbl demo_db) = [Some Resolved, Some Open] \<and>
   IssueModel_getStatusCounts demo_db ''Open'' = Some 1 \<and>
   IssueModel_getStatusCounts demo_db ''In Progress'' = Some 0 \<and>
   IssueModel_getStatusCounts demo_db ''Resolved'' = Some 1 \<and>
   IssueModel_getStatusCounts demo_db ''Closed'' = Some 0 \<and>
   IssueModel_getStatusCounts demo_db ''null'' = None \<and>
   IssueModel_getStatusCounts demo_db ''total'' = Some 2 \<and>
   dom (IssueModel_getStatusCounts demo_db) =
     {''Open'', ''In Progress'', ''Resolved'', ''Closed'', ''total''}"
proof -
  have h: "\<forall>i \<in> set (issues_tbl demo_db). i_status i \<noteq> None"
    by (simp add: demo_defs)
  from getStatusCounts_keys_and_total[of demo_db] h show ?thesis
    by (simp add: demo_defs)
qed


section \<open>The list query\<close>






lemma seg_cond_str:
  "list_all P (case x of Val s \<Rightarrow> if s \<noteq> [] then [f s] else [] | _ \<Rightarrow> []) \<longleftrightarrow>
   (\<forall>s. x = Val s \<and> s \<noteq> [] \<longrightarrow> P (f s))"
  by (cases x) auto

lemma seg_cond_int:
  "list_all P (case x of Val n \<Rightarrow> if n \<noteq> (0::int) then [f n] else [] | _ \<Rightarrow> []) \<longleftrightarrow>
   (\<forall>n. x = Val n \<and> n \<noteq> 0 \<longrightarrow> P (f n))"
  by (cases x) auto

lemma whereClause_conditions_of:
  "whereClause (conditions_of opts) r \<longleftrightarrow>
     (\<forall>s. o_status opts = Val s \<and> s \<noteq> [] \<longrightarrow>
          parse_status s \<noteq> None \<and> i_status r = parse_status s) \<and>
     (\<forall>s. o_priority opts = Val s \<and> s \<noteq> [] \<longrightarrow>
          parse_priority s \<noteq> None \<and> i_priority r = parse_priority s) \<and>
     (\<forall>s. o_severity opts = Val s \<and> s \<noteq> [] \<longrightarrow>
          parse_severity s \<noteq> None \<and> i_severity r = parse_severity s) \<and>
     (\<forall>n. o_createdBy opts = Val n \<and> n \<noteq> 0 \<longrightarrow> created_by r = n) \<and>
     (\<forall>s. search opts = Val s \<and> s \<noteq> [] \<longrightarrow>
          ilike (i_title r) (''%'' @ s @ ''%'') \<or>
          (case i_description r of None \<Rightarrow> False
           | Some desc \<Rightarrow> ilike desc (''%'' @ s @ ''%'')))"
  unfolding whereClause_def conditions_of_def
  by (simp only: list_all_append seg_cond_str seg_cond_int list.pred_inject
      eval_condition.simps HOL.simp_thms)















section \<open>The total of a list query\<close>




section \<open>Sort column and direction\<close>



end
